theory Spec2Isabelle
  imports Main "HOL-Library.Sublist"
begin

section \<open>Python values\<close>

text \<open>
  The values that flow through \<^verbatim>\<open>server.py\<close> are the objects that
  \<^verbatim>\<open>response.json()\<close> produces and the arguments of the tools:
  \<^verbatim>\<open>None\<close>, booleans, unbounded integers, floats, strings, lists and
  dictionaries with string keys. A dictionary keeps its keys in insertion
  order and holds each key once, so it is an association list that is only
  ever extended through \<open>dict_set\<close>. A float is represented by the text that
  \<^verbatim>\<open>repr\<close> and \<^verbatim>\<open>json.dumps\<close> print for it; no arithmetic on
  floats is modelled. A string is a list of 8-bit characters, read as the code
  points below 256.
\<close>

datatype pyval =
    PyNone
  | PyBool bool
  | PyInt int
  | PyFloat string
  | PyStr string
  | PyList "pyval list"
  | PyDict "(string \<times> pyval) list"

type_synonym dict = "(string \<times> pyval) list"

text \<open>
  Exceptions, each with the text that \<^verbatim>\<open>str(e)\<close> gives. The texts of the
  exceptions that the interpreter itself raises are abbreviated.
\<close>

datatype pyexn =
    RuntimeError string
  | ConnectionError string
  | HTTPError string
  | JSONDecodeError string
  | TypeError string
  | AttributeError string
  | KeyError string
  | IndexError string
  | ValueError string
  | OverflowError string

fun str_exn :: "pyexn \<Rightarrow> string" where
  "str_exn (RuntimeError m) = m"
| "str_exn (ConnectionError m) = m"
| "str_exn (HTTPError m) = m"
| "str_exn (JSONDecodeError m) = m"
| "str_exn (TypeError m) = m"
| "str_exn (AttributeError m) = m"
| "str_exn (KeyError m) = m"
| "str_exn (IndexError m) = m"
| "str_exn (ValueError m) = m"
| "str_exn (OverflowError m) = m"

subsection \<open>Dictionaries\<close>

fun dict_set :: "dict \<Rightarrow> string \<Rightarrow> pyval \<Rightarrow> dict" where
  "dict_set [] k v = [(k, v)]"
| "dict_set ((k', v') # d) k v =
     (if k' = k then (k, v) # d else (k', v') # dict_set d k v)"

definition dict_keys :: "dict \<Rightarrow> string list" where
  "dict_keys d = map fst d"

definition dict_get :: "dict \<Rightarrow> string \<Rightarrow> pyval option" where
  "dict_get d k = map_of d k"

subsection \<open>Truthiness, membership, subscripts and iteration\<close>

definition float_is_zero :: "string \<Rightarrow> bool" where
  "float_is_zero r = (r = ''0.0'' \<or> r = ''-0.0'')"

fun py_truthy :: "pyval \<Rightarrow> bool" where
  "py_truthy PyNone = False"
| "py_truthy (PyBool b) = b"
| "py_truthy (PyInt n) = (n \<noteq> 0)"
| "py_truthy (PyFloat r) = (\<not> float_is_zero r)"
| "py_truthy (PyStr s) = (s \<noteq> [])"
| "py_truthy (PyList xs) = (xs \<noteq> [])"
| "py_truthy (PyDict d) = (d \<noteq> [])"

text \<open>\<^verbatim>\<open>key in container\<close> for a string key.\<close>

fun py_contains :: "string \<Rightarrow> pyval \<Rightarrow> pyexn + bool" where
  "py_contains k (PyDict d) = Inr (k \<in> set (dict_keys d))"
| "py_contains k (PyList xs) = Inr (PyStr k \<in> set xs)"
| "py_contains k (PyStr s) = Inr (sublist k s)"
| "py_contains k _ = Inl (TypeError ''argument is not iterable'')"

text \<open>\<^verbatim>\<open>container[key]\<close> for a string key.\<close>

fun py_getitem :: "pyval \<Rightarrow> string \<Rightarrow> pyexn + pyval" where
  "py_getitem (PyDict d) k =
     (case dict_get d k of None \<Rightarrow> Inl (KeyError k) | Some v \<Rightarrow> Inr v)"
| "py_getitem (PyList xs) k = Inl (TypeError ''list indices must be integers or slices, not str'')"
| "py_getitem (PyStr s) k = Inl (TypeError ''string indices must be integers, not str'')"
| "py_getitem _ k = Inl (TypeError ''object is not subscriptable'')"

text \<open>\<^verbatim>\<open>obj.get(key, default)\<close>; only a dictionary has the method.\<close>

fun py_get :: "pyval \<Rightarrow> string \<Rightarrow> pyval \<Rightarrow> pyexn + pyval" where
  "py_get (PyDict d) k dflt =
     Inr (case dict_get d k of None \<Rightarrow> dflt | Some v \<Rightarrow> v)"
| "py_get _ k dflt = Inl (AttributeError ''object has no attribute get'')"

text \<open>The elements that a \<^verbatim>\<open>for\<close> loop over the value visits.\<close>

fun py_iter :: "pyval \<Rightarrow> pyexn + pyval list" where
  "py_iter (PyList xs) = Inr xs"
| "py_iter (PyDict d) = Inr (map PyStr (dict_keys d))"
| "py_iter (PyStr s) = Inr (map (\<lambda>c. PyStr [c]) s)"
| "py_iter _ = Inl (TypeError ''object is not iterable'')"

subsection \<open>Strings and integers as text\<close>

text \<open>
  \<^verbatim>\<open>str.upper\<close> and \<^verbatim>\<open>str.lower\<close> for strings of ASCII characters,
  which ticker symbols and the texts \<^verbatim>\<open>True\<close> and \<^verbatim>\<open>False\<close> are: the
  letters a to z change case, every other character is left as it is.
\<close>

definition py_upper_char :: "char \<Rightarrow> char" where
  "py_upper_char c =
     (if 97 \<le> (of_char c :: int) \<and> (of_char c :: int) \<le> 122
      then char_of ((of_char c :: int) - 32) else c)"

definition py_upper :: "string \<Rightarrow> string" where
  "py_upper s = map py_upper_char s"

definition py_lower_char :: "char \<Rightarrow> char" where
  "py_lower_char c =
     (if 65 \<le> (of_char c :: int) \<and> (of_char c :: int) \<le> 90
      then char_of ((of_char c :: int) + 32) else c)"

definition py_lower :: "string \<Rightarrow> string" where
  "py_lower s = map py_lower_char s"

definition digit_char :: "int \<Rightarrow> char" where
  "digit_char d = char_of (48 + d)"

function str_digits :: "int \<Rightarrow> string" where
  "str_digits n =
     (if n < 10 then [digit_char n]
      else str_digits (n div 10) @ [digit_char (n mod 10)])"
  by pat_completeness simp_all
termination
proof (relation "measure nat")
  show "wf (measure nat)" by simp
next
  fix n :: int
  assume a: "\<not> n < 10"
  then have "n div 10 < n" by linarith
  moreover from a have "0 < n" by linarith
  ultimately show "(n div 10, n) \<in> measure nat"
    by (simp add: zless_nat_conj)
qed

declare str_digits.simps [simp del]

text \<open>\<^verbatim>\<open>str(i)\<close> for an integer: decimal digits, with a minus sign when negative.\<close>

definition str_int :: "int \<Rightarrow> string" where
  "str_int i = (if i < 0 then CHR ''-'' # str_digits (- i) else str_digits i)"

definition zfill :: "nat \<Rightarrow> string \<Rightarrow> string" where
  "zfill w s = replicate (w - length s) (CHR ''0'') @ s"

definition hex_char :: "int \<Rightarrow> char" where
  "hex_char d = (if d < 10 then char_of (48 + d) else char_of (87 + d))"

subsection \<open>\<^verbatim>\<open>json.dumps(data, indent=2)\<close>\<close>

text \<open>
  With the default \<^verbatim>\<open>ensure_ascii\<close>, a string is written between double
  quotes; the quote, the backslash and the five named control characters get
  their two-character escapes, every other character outside the printable
  ASCII range becomes \<^verbatim>\<open>\u00XX\<close>.
\<close>

definition json_escape_char :: "char \<Rightarrow> string" where
  "json_escape_char c =
     (let n = (of_char c :: int) in
      if c = CHR 0x22 then [CHR 0x5C, CHR 0x22]
      else if c = CHR 0x5C then [CHR 0x5C, CHR 0x5C]
      else if c = CHR 0x0A then [CHR 0x5C, CHR ''n'']
      else if c = CHR 0x0D then [CHR 0x5C, CHR ''r'']
      else if c = CHR 0x09 then [CHR 0x5C, CHR ''t'']
      else if c = CHR 0x08 then [CHR 0x5C, CHR ''b'']
      else if c = CHR 0x0C then [CHR 0x5C, CHR ''f'']
      else if 32 \<le> n \<and> n \<le> 126 then [c]
      else [CHR 0x5C, CHR ''u'', CHR ''0'', CHR ''0'', hex_char (n div 16), hex_char (n mod 16)])"

definition json_quote :: "string \<Rightarrow> string" where
  "json_quote s = CHR 0x22 # concat (map json_escape_char s) @ [CHR 0x22]"

text \<open>A line break followed by the indentation of nesting depth \<open>lvl\<close>.\<close>

definition newline_indent :: "nat \<Rightarrow> string" where
  "newline_indent lvl = CHR 0x0A # replicate (2 * lvl) (CHR '' '')"

fun dumps_at :: "nat \<Rightarrow> pyval \<Rightarrow> string"
  and dumps_items :: "nat \<Rightarrow> pyval list \<Rightarrow> string"
  and dumps_members :: "nat \<Rightarrow> (string \<times> pyval) list \<Rightarrow> string"
where
  "dumps_at lvl PyNone = ''null''"
| "dumps_at lvl (PyBool b) = (if b then ''true'' else ''false'')"
| "dumps_at lvl (PyInt n) = str_int n"
| "dumps_at lvl (PyFloat r) = r"
| "dumps_at lvl (PyStr s) = json_quote s"
| "dumps_at lvl (PyList []) = ''[]''"
| "dumps_at lvl (PyList (x # xs)) =
     ''['' @ newline_indent (Suc lvl) @ dumps_items (Suc lvl) (x # xs)
       @ newline_indent lvl @ '']''"
| "dumps_at lvl (PyDict []) = ''{}''"
| "dumps_at lvl (PyDict (kv # kvs)) =
     ''{'' @ newline_indent (Suc lvl) @ dumps_members (Suc lvl) (kv # kvs)
       @ newline_indent lvl @ ''}''"
| "dumps_items lvl [] = []"
| "dumps_items lvl [x] = dumps_at lvl x"
| "dumps_items lvl (x # y # xs) =
     dumps_at lvl x @ '','' @ newline_indent lvl @ dumps_items lvl (y # xs)"
| "dumps_members lvl [] = []"
| "dumps_members lvl [(k, v)] = json_quote k @ '': '' @ dumps_at lvl v"
| "dumps_members lvl ((k, v) # kv # kvs) =
     json_quote k @ '': '' @ dumps_at lvl v @ '','' @ newline_indent lvl
       @ dumps_members lvl (kv # kvs)"

definition json_dumps :: "pyval \<Rightarrow> string" where
  "json_dumps data = dumps_at 0 data"

subsection \<open>\<^verbatim>\<open>repr\<close> and \<^verbatim>\<open>str\<close>\<close>

text \<open>
  The \<^verbatim>\<open>repr\<close> of a string prefers single quotes and switches to double
  quotes when the string has a single quote and no double quote. The
  characters without a printable form are written as \<^verbatim>\<open>\xNN\<close>.
\<close>

definition py_printable :: "char \<Rightarrow> bool" where
  "py_printable c =
     (let n = (of_char c :: int) in
      (32 \<le> n \<and> n \<le> 126) \<or> (161 \<le> n \<and> n \<noteq> 173))"

definition repr_char :: "char \<Rightarrow> char \<Rightarrow> string" where
  "repr_char q c =
     (let n = (of_char c :: int) in
      if c = q \<or> c = CHR 0x5C then [CHR 0x5C, c]
      else if c = CHR 0x09 then [CHR 0x5C, CHR ''t'']
      else if c = CHR 0x0A then [CHR 0x5C, CHR ''n'']
      else if c = CHR 0x0D then [CHR 0x5C, CHR ''r'']
      else if py_printable c then [c]
      else [CHR 0x5C, CHR ''x'', hex_char (n div 16), hex_char (n mod 16)])"

definition repr_str :: "string \<Rightarrow> string" where
  "repr_str s =
     (let q = (if CHR 0x27 \<in> set s \<and> CHR 0x22 \<notin> set s then CHR 0x22 else CHR 0x27)
      in q # concat (map (repr_char q) s) @ [q])"

fun py_repr :: "pyval \<Rightarrow> string"
  and repr_items :: "pyval list \<Rightarrow> string"
  and repr_members :: "(string \<times> pyval) list \<Rightarrow> string"
where
  "py_repr PyNone = ''None''"
| "py_repr (PyBool b) = (if b then ''True'' else ''False'')"
| "py_repr (PyInt n) = str_int n"
| "py_repr (PyFloat r) = r"
| "py_repr (PyStr s) = repr_str s"
| "py_repr (PyList xs) = ''['' @ repr_items xs @ '']''"
| "py_repr (PyDict d) = ''{'' @ repr_members d @ ''}''"
| "repr_items [] = []"
| "repr_items [x] = py_repr x"
| "repr_items (x # y # xs) = py_repr x @ '', '' @ repr_items (y # xs)"
| "repr_members [] = []"
| "repr_members [(k, v)] = repr_str k @ '': '' @ py_repr v"
| "repr_members ((k, v) # kv # kvs) =
     repr_str k @ '': '' @ py_repr v @ '', '' @ repr_members (kv # kvs)"

text \<open>\<^verbatim>\<open>str(x)\<close>, which is also what an f-string inserts.\<close>

fun py_str :: "pyval \<Rightarrow> string" where
  "py_str (PyStr s) = s"
| "py_str v = py_repr v"

subsection \<open>Dates and times\<close>

text \<open>
  A \<^verbatim>\<open>datetime\<close> in UTC is represented by its whole seconds since
  1970-01-01T00:00:00; the class covers the years 1 to 9999. The civil date
  of a day number follows the proleptic Gregorian calendar.
\<close>

definition civil_from_days :: "int \<Rightarrow> int \<times> int \<times> int" where
  "civil_from_days days =
     (let z = days + 719468;
          era = z div 146097;
          doe = z - era * 146097;
          yoe = (doe - doe div 1460 + doe div 36524 - doe div 146096) div 365;
          doy = doe - (365 * yoe + yoe div 4 - yoe div 100);
          mp = (5 * doy + 2) div 153;
          d = doy - (153 * mp + 2) div 5 + 1;
          m = (if mp < 10 then mp + 3 else mp - 9);
          y = yoe + era * 400 + (if m \<le> 2 then 1 else 0)
      in (y, m, d))"

definition datetime_min :: int where
  "datetime_min = - 62135596800"

definition datetime_max :: int where
  "datetime_max = 253402300799"

text \<open>\<^verbatim>\<open>datetime.fromtimestamp(s, tz=timezone.utc)\<close> for whole seconds \<open>s\<close>.\<close>

definition datetime_fromtimestamp :: "int \<Rightarrow> pyexn + int" where
  "datetime_fromtimestamp s =
     (if datetime_min \<le> s \<and> s \<le> datetime_max then Inr s
      else Inl (ValueError ''year is out of range''))"

text \<open>\<^verbatim>\<open>dt + timedelta(seconds=delta)\<close>.\<close>

definition datetime_add :: "int \<Rightarrow> int \<Rightarrow> pyexn + int" where
  "datetime_add dt delta =
     (if datetime_min \<le> dt + delta \<and> dt + delta \<le> datetime_max then Inr (dt + delta)
      else Inl (OverflowError ''date value out of range''))"

definition datetime_hour :: "int \<Rightarrow> int" where
  "datetime_hour dt = (dt mod 86400) div 3600"

definition datetime_minute :: "int \<Rightarrow> int" where
  "datetime_minute dt = (dt mod 3600) div 60"

definition datetime_second :: "int \<Rightarrow> int" where
  "datetime_second dt = dt mod 60"

text \<open>\<^verbatim>\<open>strftime("%Y-%m-%d")\<close> on the fields of a date, the year on four digits.\<close>

definition strftime_ymd :: "int \<Rightarrow> int \<Rightarrow> int \<Rightarrow> string" where
  "strftime_ymd y m d =
     zfill 4 (str_int y) @ ''-'' @ zfill 2 (str_int m) @ ''-'' @ zfill 2 (str_int d)"

definition strftime_date :: "int \<Rightarrow> string" where
  "strftime_date dt =
     (case civil_from_days (dt div 86400) of (y, m, d) \<Rightarrow> strftime_ymd y m d)"

text \<open>\<^verbatim>\<open>strftime("%Y-%m-%d %H:%M:%S")\<close>.\<close>

definition strftime_datetime :: "int \<Rightarrow> string" where
  "strftime_datetime dt =
     strftime_date dt @ '' '' @ zfill 2 (str_int (datetime_hour dt))
       @ '':'' @ zfill 2 (str_int (datetime_minute dt))
       @ '':'' @ zfill 2 (str_int (datetime_second dt))"

text \<open>\<^verbatim>\<open>_iso_date(dt)\<close>.\<close>

definition iso_date :: "int \<Rightarrow> string" where
  "iso_date dt = strftime_date dt"

section \<open>The upstream service\<close>

text \<open>
  What lies outside the module is a parameter of every tool: the environment
  variable \<^verbatim>\<open>POLYGON_API_KEY\<close>, the outcome of \<^verbatim>\<open>requests.get(url,
  params=params, timeout=timeout)\<close>, the clock read by
  \<^verbatim>\<open>datetime.now(timezone.utc)\<close>, and the whole seconds of
  \<^verbatim>\<open>datetime.fromtimestamp(t / 1000, tz=timezone.utc)\<close> for a float \<open>t\<close>.
  A response carries what the module reads from it: the status with its reason
  phrase, the final URL, and the outcome of \<^verbatim>\<open>response.json()\<close>.
\<close>

record response =
  status_code :: int
  reason :: string
  url :: string
  json :: "pyexn + pyval"

record env =
  POLYGON_API_KEY :: "string option"
  requests_get :: "string \<Rightarrow> dict \<Rightarrow> int \<Rightarrow> pyexn + response"
  utc_now :: int
  float_ms_fromtimestamp :: "string \<Rightarrow> pyexn + int"

definition bind_exn :: "pyexn + 'a \<Rightarrow> ('a \<Rightarrow> pyexn + 'b) \<Rightarrow> pyexn + 'b" where
  "bind_exn m f = (case m of Inl e \<Rightarrow> Inl e | Inr x \<Rightarrow> f x)"

fun map_exn :: "('a \<Rightarrow> pyexn + 'b) \<Rightarrow> 'a list \<Rightarrow> pyexn + 'b list" where
  "map_exn f [] = Inr []"
| "map_exn f (x # xs) =
     bind_exn (f x) (\<lambda>y. bind_exn (map_exn f xs) (\<lambda>ys. Inr (y # ys)))"

text \<open>\<^verbatim>\<open>_require_polygon_api_key()\<close>: an unset and an empty variable both fail.\<close>

definition require_polygon_api_key :: "env \<Rightarrow> pyexn + string" where
  "require_polygon_api_key e =
     (case POLYGON_API_KEY e of
        None \<Rightarrow> Inl (RuntimeError ''POLYGON_API_KEY environment variable is not set'')
      | Some api_key \<Rightarrow>
          if api_key = [] then Inl (RuntimeError ''POLYGON_API_KEY environment variable is not set'')
          else Inr api_key)"

text \<open>\<^verbatim>\<open>response.raise_for_status()\<close>.\<close>

definition raise_for_status :: "response \<Rightarrow> pyexn + unit" where
  "raise_for_status r =
     (if 400 \<le> status_code r \<and> status_code r < 500
      then Inl (HTTPError (str_int (status_code r) @ '' Client Error: '' @ reason r
                            @ '' for url: '' @ url r))
      else if 500 \<le> status_code r \<and> status_code r < 600
      then Inl (HTTPError (str_int (status_code r) @ '' Server Error: '' @ reason r
                            @ '' for url: '' @ url r))
      else Inr ())"

definition base_url :: string where
  "base_url = ''https://api.polygon.io''"

text \<open>
  The query that \<^verbatim>\<open>_polygon_get\<close> sends:
  \<^verbatim>\<open>params = dict(params or {}); params["apiKey"] = api_key\<close>, where
  \<open>params_or_empty\<close> is \<^verbatim>\<open>params or {}\<close>.
\<close>

definition params_or_empty :: "dict option \<Rightarrow> dict" where
  "params_or_empty params =
     (case params of None \<Rightarrow> [] | Some d \<Rightarrow> if d = [] then [] else d)"

definition polygon_params :: "dict option \<Rightarrow> string \<Rightarrow> dict" where
  "polygon_params params api_key =
     (let params = params_or_empty params
      in dict_set params ''apiKey'' (PyStr api_key))"

text \<open>\<^verbatim>\<open>_polygon_get(path, params)\<close>.\<close>

definition polygon_get :: "env \<Rightarrow> string \<Rightarrow> dict option \<Rightarrow> pyexn + pyval" where
  "polygon_get e path params =
     bind_exn (require_polygon_api_key e) (\<lambda>api_key.
       let url = base_url @ path;
           params = polygon_params params api_key
       in bind_exn (requests_get e url params 20) (\<lambda>response.
            bind_exn (raise_for_status response) (\<lambda>_. json response)))"

text \<open>
  \<^verbatim>\<open>try: ... except Exception as e: return f"Error: {str(e)}"\<close> around the
  body of a tool. The result of a tool is \<open>Inr\<close> of the returned string, or
  \<open>Inl\<close> of the exception that leaves the function.
\<close>

definition except_Exception :: "pyexn + string \<Rightarrow> pyexn + string" where
  "except_Exception body =
     (case body of Inl e \<Rightarrow> Inr (''Error: '' @ str_exn e) | Inr s \<Rightarrow> Inr s)"

text \<open>
  The two lines shared by most tools:
  \<^verbatim>\<open>data = _polygon_get(path, params=params); return json.dumps(data, indent=2)\<close>.
\<close>

definition fetch_json :: "env \<Rightarrow> string \<times> dict option \<Rightarrow> pyexn + string" where
  "fetch_json e req =
     bind_exn (polygon_get e (fst req) (snd req)) (\<lambda>data. Inr (json_dumps data))"

section \<open>Arguments of the tools\<close>

text \<open>
  An argument that the caller may leave out is an \<open>option\<close>: \<open>None\<close> stands
  for the omitted argument, which Python binds to the default of the
  signature. The functions below give the Python value of such an argument
  when the default is \<^verbatim>\<open>None\<close>.
\<close>

definition opt_str :: "string option \<Rightarrow> pyval" where
  "opt_str x = (case x of None \<Rightarrow> PyNone | Some s \<Rightarrow> PyStr s)"

definition opt_int :: "int option \<Rightarrow> pyval" where
  "opt_int x = (case x of None \<Rightarrow> PyNone | Some n \<Rightarrow> PyInt n)"

definition opt_float :: "string option \<Rightarrow> pyval" where
  "opt_float x = (case x of None \<Rightarrow> PyNone | Some r \<Rightarrow> PyFloat r)"

definition opt_bool :: "bool option \<Rightarrow> pyval" where
  "opt_bool x = (case x of None \<Rightarrow> PyNone | Some b \<Rightarrow> PyBool b)"

text \<open>The value of an argument whose default is not \<^verbatim>\<open>None\<close>.\<close>

definition or_default :: "'a option \<Rightarrow> 'a \<Rightarrow> 'a" where
  "or_default x dflt = (case x of None \<Rightarrow> dflt | Some v \<Rightarrow> v)"

text \<open>
  A date argument has the type \<^verbatim>\<open>Union[str, int, datetime, date]\<close>. The
  tools replace a \<^verbatim>\<open>date\<close> or \<^verbatim>\<open>datetime\<close> object by its
  \<^verbatim>\<open>strftime("%Y-%m-%d")\<close>; the f-string of the path then inserts the
  string, or the integer in decimal.
\<close>

datatype date_arg =
    DateStr string
  | DateInt int
  | DateObj int int int
  | DatetimeObj int int int int int int

fun date_text :: "date_arg \<Rightarrow> string" where
  "date_text (DateStr s) = s"
| "date_text (DateInt n) = str_int n"
| "date_text (DateObj y m d) = strftime_ymd y m d"
| "date_text (DatetimeObj y m d hh mm ss) = strftime_ymd y m d"

section \<open>Market-session classification\<close>

text \<open>
  \<^verbatim>\<open>_determine_market_session(hour, minute)\<close> of \<^verbatim>\<open>server.py\<close>: the minute of
  the day is \<open>hour * 60 + minute\<close> and the chain of comparisons is kept in the
  order of the source. Python integers are unbounded, hence \<open>int\<close>.
\<close>

definition determine_market_session :: "int \<Rightarrow> int \<Rightarrow> string" where
  "determine_market_session hour minute =
     (let time_minutes = hour * 60 + minute in
      if 240 \<le> time_minutes \<and> time_minutes < 570 then ''pre_market''
      else if 570 \<le> time_minutes \<and> time_minutes < 960 then ''regular_market''
      else if 960 \<le> time_minutes \<and> time_minutes < 1200 then ''after_hours''
      else ''market_closed'')"

section \<open>The tools that forward the upstream body\<close>

text \<open>
  Each tool below builds a path and a query from its arguments, calls
  \<^verbatim>\<open>_polygon_get\<close> and returns \<^verbatim>\<open>json.dumps(data, indent=2)\<close>, all
  inside \<^verbatim>\<open>try ... except Exception\<close>. The builder of the request is
  named apart, so that the request can be stated without the upstream call.
  The names \<open>sort'\<close> and \<open>type'\<close> stand for the parameters
  \<^verbatim>\<open>sort\<close> and \<^verbatim>\<open>type\<close>.
\<close>

definition get_aggregates_request ::
  "string \<Rightarrow> int \<Rightarrow> string \<Rightarrow> date_arg \<Rightarrow> date_arg \<Rightarrow> bool option \<Rightarrow> string option
     \<Rightarrow> int option \<Rightarrow> string \<times> dict option" where
  "get_aggregates_request ticker multiplier timespan from_date to_date adjusted sort' limit =
     (let path = ''/v2/aggs/ticker/'' @ py_upper ticker @ ''/range/'' @ str_int multiplier
                   @ ''/'' @ timespan @ ''/'' @ date_text from_date @ ''/'' @ date_text to_date;
          params = [];
          params = (if adjusted \<noteq> None
                    then dict_set params ''adjusted'' (PyStr (py_lower (py_str (opt_bool adjusted))))
                    else params);
          params = (if py_truthy (opt_str sort') then dict_set params ''sort'' (opt_str sort') else params);
          params = (if py_truthy (opt_int limit) then dict_set params ''limit'' (opt_int limit) else params)
      in (path, Some params))"

definition get_aggregates ::
  "env \<Rightarrow> string \<Rightarrow> int \<Rightarrow> string \<Rightarrow> date_arg \<Rightarrow> date_arg \<Rightarrow> bool option \<Rightarrow> string option
     \<Rightarrow> int option \<Rightarrow> pyexn + string" where
  "get_aggregates e ticker multiplier timespan from_date to_date adjusted sort' limit =
     except_Exception (fetch_json e
       (get_aggregates_request ticker multiplier timespan from_date to_date adjusted sort' limit))"

definition get_previous_close_request :: "string \<Rightarrow> bool option \<Rightarrow> string \<times> dict option" where
  "get_previous_close_request ticker adjusted =
     (let path = ''/v2/aggs/ticker/'' @ py_upper ticker @ ''/prev'';
          params = [];
          params = (if adjusted \<noteq> None
                    then dict_set params ''adjusted'' (PyStr (py_lower (py_str (opt_bool adjusted))))
                    else params)
      in (path, Some params))"

definition get_previous_close :: "env \<Rightarrow> string \<Rightarrow> bool option \<Rightarrow> pyexn + string" where
  "get_previous_close e ticker adjusted =
     except_Exception (fetch_json e (get_previous_close_request ticker adjusted))"

text \<open>The next four tools call \<^verbatim>\<open>_polygon_get(path)\<close> with no query of their own.\<close>

definition get_last_trade_request :: "string \<Rightarrow> string \<times> dict option" where
  "get_last_trade_request ticker =
     (let path = ''/v2/last/trade/'' @ py_upper ticker in (path, None))"

definition get_last_trade :: "env \<Rightarrow> string \<Rightarrow> pyexn + string" where
  "get_last_trade e ticker = except_Exception (fetch_json e (get_last_trade_request ticker))"

definition get_last_quote_request :: "string \<Rightarrow> string \<times> dict option" where
  "get_last_quote_request ticker =
     (let path = ''/v2/last/quote/'' @ py_upper ticker in (path, None))"

definition get_last_quote :: "env \<Rightarrow> string \<Rightarrow> pyexn + string" where
  "get_last_quote e ticker = except_Exception (fetch_json e (get_last_quote_request ticker))"

definition get_snapshot_ticker_request :: "string \<Rightarrow> string \<Rightarrow> string \<times> dict option" where
  "get_snapshot_ticker_request market_type ticker =
     (let path = ''/v2/snapshot/locale/'' @ market_type @ ''/markets/'' @ market_type
                   @ ''/tickers/'' @ py_upper ticker
      in (path, None))"

definition get_snapshot_ticker :: "env \<Rightarrow> string \<Rightarrow> string \<Rightarrow> pyexn + string" where
  "get_snapshot_ticker e market_type ticker =
     except_Exception (fetch_json e (get_snapshot_ticker_request market_type ticker))"

definition get_market_status_request :: "string \<times> dict option" where
  "get_market_status_request = (let path = ''/v1/marketstatus/now'' in (path, None))"

definition get_market_status :: "env \<Rightarrow> pyexn + string" where
  "get_market_status e = except_Exception (fetch_json e get_market_status_request)"

definition search_tickers_request ::
  "string option \<Rightarrow> string option \<Rightarrow> string option \<Rightarrow> bool option \<Rightarrow> int option
     \<Rightarrow> string option \<Rightarrow> string option \<Rightarrow> string \<times> dict option" where
  "search_tickers_request search type' market active limit sort' order =
     (let path = ''/v3/reference/tickers'';
          params = [];
          params = (if py_truthy (opt_str search) then dict_set params ''search'' (opt_str search) else params);
          params = (if py_truthy (opt_str type') then dict_set params ''type'' (opt_str type') else params);
          params = (if py_truthy (opt_str market) then dict_set params ''market'' (opt_str market) else params);
          params = (if active \<noteq> None
                    then dict_set params ''active'' (PyStr (py_lower (py_str (opt_bool active))))
                    else params);
          params = (if py_truthy (opt_int limit) then dict_set params ''limit'' (opt_int limit) else params);
          params = (if py_truthy (opt_str sort') then dict_set params ''sort'' (opt_str sort') else params);
          params = (if py_truthy (opt_str order) then dict_set params ''order'' (opt_str order) else params)
      in (path, Some params))"

definition search_tickers ::
  "env \<Rightarrow> string option \<Rightarrow> string option \<Rightarrow> string option \<Rightarrow> bool option \<Rightarrow> int option
     \<Rightarrow> string option \<Rightarrow> string option \<Rightarrow> pyexn + string" where
  "search_tickers e search type' market active limit sort' order =
     except_Exception (fetch_json e
       (search_tickers_request search type' market active limit sort' order))"

definition get_ticker_news_request ::
  "string option \<Rightarrow> string option \<Rightarrow> int option \<Rightarrow> string option \<Rightarrow> string option
     \<Rightarrow> string \<times> dict option" where
  "get_ticker_news_request ticker published_utc limit sort' order =
     (let path = ''/v2/reference/news'';
          params = [];
          params = (if py_truthy (opt_str ticker)
                    then dict_set params ''ticker'' (PyStr (py_upper (the ticker))) else params);
          params = (if py_truthy (opt_str published_utc)
                    then dict_set params ''published_utc'' (opt_str published_utc) else params);
          params = (if py_truthy (opt_int limit) then dict_set params ''limit'' (opt_int limit) else params);
          params = (if py_truthy (opt_str sort') then dict_set params ''sort'' (opt_str sort') else params);
          params = (if py_truthy (opt_str order) then dict_set params ''order'' (opt_str order) else params)
      in (path, Some params))"

definition get_ticker_news ::
  "env \<Rightarrow> string option \<Rightarrow> string option \<Rightarrow> int option \<Rightarrow> string option \<Rightarrow> string option
     \<Rightarrow> pyexn + string" where
  "get_ticker_news e ticker published_utc limit sort' order =
     except_Exception (fetch_json e (get_ticker_news_request ticker published_utc limit sort' order))"

definition get_dividends_request ::
  "string option \<Rightarrow> string option \<Rightarrow> int option \<Rightarrow> string option \<Rightarrow> int option
     \<Rightarrow> string \<times> dict option" where
  "get_dividends_request ticker ex_dividend_date frequency dividend_type limit =
     (let path = ''/v3/reference/dividends'';
          params = [];
          params = (if py_truthy (opt_str ticker)
                    then dict_set params ''ticker'' (PyStr (py_upper (the ticker))) else params);
          params = (if py_truthy (opt_str ex_dividend_date)
                    then dict_set params ''ex_dividend_date'' (opt_str ex_dividend_date) else params);
          params = (if py_truthy (opt_int frequency)
                    then dict_set params ''frequency'' (opt_int frequency) else params);
          params = (if py_truthy (opt_str dividend_type)
                    then dict_set params ''dividend_type'' (opt_str dividend_type) else params);
          params = (if py_truthy (opt_int limit) then dict_set params ''limit'' (opt_int limit) else params)
      in (path, Some params))"

definition get_dividends ::
  "env \<Rightarrow> string option \<Rightarrow> string option \<Rightarrow> int option \<Rightarrow> string option \<Rightarrow> int option
     \<Rightarrow> pyexn + string" where
  "get_dividends e ticker ex_dividend_date frequency dividend_type limit =
     except_Exception (fetch_json e
       (get_dividends_request ticker ex_dividend_date frequency dividend_type limit))"

definition get_splits_request ::
  "string option \<Rightarrow> string option \<Rightarrow> bool option \<Rightarrow> int option \<Rightarrow> string \<times> dict option" where
  "get_splits_request ticker execution_date reverse_split limit =
     (let path = ''/v3/reference/splits'';
          params = [];
          params = (if py_truthy (opt_str ticker)
                    then dict_set params ''ticker'' (PyStr (py_upper (the ticker))) else params);
          params = (if py_truthy (opt_str execution_date)
                    then dict_set params ''execution_date'' (opt_str execution_date) else params);
          params = (if reverse_split \<noteq> None
                    then dict_set params ''reverse_split''
                           (PyStr (py_lower (py_str (opt_bool reverse_split))))
                    else params);
          params = (if py_truthy (opt_int limit) then dict_set params ''limit'' (opt_int limit) else params)
      in (path, Some params))"

definition get_splits ::
  "env \<Rightarrow> string option \<Rightarrow> string option \<Rightarrow> bool option \<Rightarrow> int option \<Rightarrow> pyexn + string" where
  "get_splits e ticker execution_date reverse_split limit =
     except_Exception (fetch_json e (get_splits_request ticker execution_date reverse_split limit))"

definition get_treasury_yields_request ::
  "string option \<Rightarrow> int option \<Rightarrow> string option \<Rightarrow> string option \<Rightarrow> string \<times> dict option" where
  "get_treasury_yields_request date limit sort' order =
     (let path = ''/v1/indicators/treasury-yield'';
          params = [];
          params = (if py_truthy (opt_str date) then dict_set params ''date'' (opt_str date) else params);
          params = (if py_truthy (opt_int limit) then dict_set params ''limit'' (opt_int limit) else params);
          params = (if py_truthy (opt_str sort') then dict_set params ''sort'' (opt_str sort') else params);
          params = (if py_truthy (opt_str order) then dict_set params ''order'' (opt_str order) else params)
      in (path, Some params))"

definition get_treasury_yields ::
  "env \<Rightarrow> string option \<Rightarrow> int option \<Rightarrow> string option \<Rightarrow> string option \<Rightarrow> pyexn + string" where
  "get_treasury_yields e date limit sort' order =
     except_Exception (fetch_json e (get_treasury_yields_request date limit sort' order))"

definition get_earnings_request ::
  "string option \<Rightarrow> string option \<Rightarrow> int option \<Rightarrow> string option \<Rightarrow> string option
     \<Rightarrow> string \<times> dict option" where
  "get_earnings_request ticker date limit sort' order =
     (let path = ''/v3/reference/earnings'';
          params = [];
          params = (if py_truthy (opt_str ticker)
                    then dict_set params ''ticker'' (PyStr (py_upper (the ticker))) else params);
          params = (if py_truthy (opt_str date) then dict_set params ''date'' (opt_str date) else params);
          params = (if py_truthy (opt_int limit) then dict_set params ''limit'' (opt_int limit) else params);
          params = (if py_truthy (opt_str sort') then dict_set params ''sort'' (opt_str sort') else params);
          params = (if py_truthy (opt_str order) then dict_set params ''order'' (opt_str order) else params)
      in (path, Some params))"

definition get_earnings ::
  "env \<Rightarrow> string option \<Rightarrow> string option \<Rightarrow> int option \<Rightarrow> string option \<Rightarrow> string option
     \<Rightarrow> pyexn + string" where
  "get_earnings e ticker date limit sort' order =
     except_Exception (fetch_json e (get_earnings_request ticker date limit sort' order))"

definition get_analyst_ratings_request ::
  "string option \<Rightarrow> string option \<Rightarrow> int option \<Rightarrow> string option \<Rightarrow> string option
     \<Rightarrow> string \<times> dict option" where
  "get_analyst_ratings_request ticker date limit sort' order =
     (let path = ''/v2/reference/analysts'';
          params = [];
          params = (if py_truthy (opt_str ticker)
                    then dict_set params ''ticker'' (PyStr (py_upper (the ticker))) else params);
          params = (if py_truthy (opt_str date) then dict_set params ''date'' (opt_str date) else params);
          params = (if py_truthy (opt_int limit) then dict_set params ''limit'' (opt_int limit) else params);
          params = (if py_truthy (opt_str sort') then dict_set params ''sort'' (opt_str sort') else params);
          params = (if py_truthy (opt_str order) then dict_set params ''order'' (opt_str order) else params)
      in (path, Some params))"

definition get_analyst_ratings ::
  "env \<Rightarrow> string option \<Rightarrow> string option \<Rightarrow> int option \<Rightarrow> string option \<Rightarrow> string option
     \<Rightarrow> pyexn + string" where
  "get_analyst_ratings e ticker date limit sort' order =
     except_Exception (fetch_json e (get_analyst_ratings_request ticker date limit sort' order))"

definition get_short_interest_request ::
  "string option \<Rightarrow> string option \<Rightarrow> int option \<Rightarrow> string option \<Rightarrow> string option
     \<Rightarrow> string \<times> dict option" where
  "get_short_interest_request ticker settlement_date limit sort' order =
     (let path = ''/v2/reference/short-interest'';
          params = [];
          params = (if py_truthy (opt_str ticker)
                    then dict_set params ''ticker'' (PyStr (py_upper (the ticker))) else params);
          params = (if py_truthy (opt_str settlement_date)
                    then dict_set params ''settlement_date'' (opt_str settlement_date) else params);
          params = (if py_truthy (opt_int limit) then dict_set params ''limit'' (opt_int limit) else params);
          params = (if py_truthy (opt_str sort') then dict_set params ''sort'' (opt_str sort') else params);
          params = (if py_truthy (opt_str order) then dict_set params ''order'' (opt_str order) else params)
      in (path, Some params))"

definition get_short_interest ::
  "env \<Rightarrow> string option \<Rightarrow> string option \<Rightarrow> int option \<Rightarrow> string option \<Rightarrow> string option
     \<Rightarrow> pyexn + string" where
  "get_short_interest e ticker settlement_date limit sort' order =
     except_Exception (fetch_json e
       (get_short_interest_request ticker settlement_date limit sort' order))"

text \<open>
  \<^verbatim>\<open>strike_price\<close> is a float: the argument is the text of the float, as
  in \<open>PyFloat\<close>.
\<close>

definition get_options_contracts_request ::
  "string \<Rightarrow> string option \<Rightarrow> string option \<Rightarrow> string option \<Rightarrow> int option
     \<Rightarrow> string \<times> dict option" where
  "get_options_contracts_request underlying_asset contract_type strike_price expiration_date limit =
     (let path = ''/v3/reference/options/contracts'';
          params = [(''underlying_asset'', PyStr (py_upper underlying_asset))];
          params = (if py_truthy (opt_str contract_type)
                    then dict_set params ''contract_type'' (opt_str contract_type) else params);
          params = (if py_truthy (opt_float strike_price)
                    then dict_set params ''strike_price'' (opt_float strike_price) else params);
          params = (if py_truthy (opt_str expiration_date)
                    then dict_set params ''expiration_date'' (opt_str expiration_date) else params);
          params = (if py_truthy (opt_int limit) then dict_set params ''limit'' (opt_int limit) else params)
      in (path, Some params))"

definition get_options_contracts ::
  "env \<Rightarrow> string \<Rightarrow> string option \<Rightarrow> string option \<Rightarrow> string option \<Rightarrow> int option
     \<Rightarrow> pyexn + string" where
  "get_options_contracts e underlying_asset contract_type strike_price expiration_date limit =
     except_Exception (fetch_json e
       (get_options_contracts_request underlying_asset contract_type strike_price expiration_date
          limit))"

definition get_options_snapshot_request ::
  "string \<Rightarrow> string option \<Rightarrow> string option \<Rightarrow> string option \<Rightarrow> string \<times> dict option" where
  "get_options_snapshot_request underlying_asset strike_price expiration_date contract_type =
     (let path = ''/v3/snapshot/options/'' @ py_upper underlying_asset;
          params = [];
          params = (if py_truthy (opt_float strike_price)
                    then dict_set params ''strike_price'' (opt_float strike_price) else params);
          params = (if py_truthy (opt_str expiration_date)
                    then dict_set params ''expiration_date'' (opt_str expiration_date) else params);
          params = (if py_truthy (opt_str contract_type)
                    then dict_set params ''contract_type'' (opt_str contract_type) else params)
      in (path, Some params))"

definition get_options_snapshot ::
  "env \<Rightarrow> string \<Rightarrow> string option \<Rightarrow> string option \<Rightarrow> string option \<Rightarrow> pyexn + string" where
  "get_options_snapshot e underlying_asset strike_price expiration_date contract_type =
     except_Exception (fetch_json e
       (get_options_snapshot_request underlying_asset strike_price expiration_date contract_type))"

text \<open>
  \<^verbatim>\<open>get_balance_sheet\<close> and \<^verbatim>\<open>get_cash_flow\<close> have the defaults
  \<^verbatim>\<open>timeframe="quarterly"\<close> and \<^verbatim>\<open>order="desc"\<close> and put both
  parameters into the query in every call.
\<close>

definition get_balance_sheet_request ::
  "string \<Rightarrow> string option \<Rightarrow> int option \<Rightarrow> string option \<Rightarrow> string \<times> dict option" where
  "get_balance_sheet_request ticker timeframe limit order =
     (let path = ''/vX/reference/financials'';
          params = [(''ticker'', PyStr (py_upper ticker)),
                    (''timeframe'', PyStr (or_default timeframe ''quarterly'')),
                    (''order'', PyStr (or_default order ''desc''))];
          params = (if py_truthy (opt_int limit) then dict_set params ''limit'' (opt_int limit) else params)
      in (path, Some params))"

definition get_balance_sheet ::
  "env \<Rightarrow> string \<Rightarrow> string option \<Rightarrow> int option \<Rightarrow> string option \<Rightarrow> pyexn + string" where
  "get_balance_sheet e ticker timeframe limit order =
     except_Exception (fetch_json e (get_balance_sheet_request ticker timeframe limit order))"

definition get_cash_flow_request ::
  "string \<Rightarrow> string option \<Rightarrow> int option \<Rightarrow> string option \<Rightarrow> string \<times> dict option" where
  "get_cash_flow_request ticker timeframe limit order =
     (let path = ''/vX/reference/financials'';
          params = [(''ticker'', PyStr (py_upper ticker)),
                    (''timeframe'', PyStr (or_default timeframe ''quarterly'')),
                    (''order'', PyStr (or_default order ''desc''))];
          params = (if py_truthy (opt_int limit) then dict_set params ''limit'' (opt_int limit) else params)
      in (path, Some params))"

definition get_cash_flow ::
  "env \<Rightarrow> string \<Rightarrow> string option \<Rightarrow> int option \<Rightarrow> string option \<Rightarrow> pyexn + string" where
  "get_cash_flow e ticker timeframe limit order =
     except_Exception (fetch_json e (get_cash_flow_request ticker timeframe limit order))"

text \<open>\<^verbatim>\<open>include_otc\<close> is a \<^verbatim>\<open>bool\<close> with the default \<^verbatim>\<open>False\<close>.\<close>

definition get_market_gainers_losers_request ::
  "string \<Rightarrow> bool option \<Rightarrow> int option \<Rightarrow> string \<times> dict option" where
  "get_market_gainers_losers_request direction include_otc limit =
     (let path = ''/v2/snapshot/locale/us/markets/stocks/'' @ direction;
          params = [];
          params = (if or_default include_otc False
                    then dict_set params ''include_otc'' (PyStr ''true'') else params);
          params = (if py_truthy (opt_int limit) then dict_set params ''limit'' (opt_int limit) else params)
      in (path, Some params))"

definition get_market_gainers_losers ::
  "env \<Rightarrow> string \<Rightarrow> bool option \<Rightarrow> int option \<Rightarrow> pyexn + string" where
  "get_market_gainers_losers e direction include_otc limit =
     except_Exception (fetch_json e (get_market_gainers_losers_request direction include_otc limit))"

definition get_market_holidays_request :: "string \<times> dict option" where
  "get_market_holidays_request = (let path = ''/v1/marketstatus/upcoming'' in (path, None))"

definition get_market_holidays :: "env \<Rightarrow> pyexn + string" where
  "get_market_holidays e = except_Exception (fetch_json e get_market_holidays_request)"

definition get_inflation_data_request ::
  "string option \<Rightarrow> int option \<Rightarrow> string option \<Rightarrow> string \<times> dict option" where
  "get_inflation_data_request date limit sort' =
     (let path = ''/v1/indicators/inflation'';
          params = [];
          params = (if py_truthy (opt_str date) then dict_set params ''date'' (opt_str date) else params);
          params = (if py_truthy (opt_int limit) then dict_set params ''limit'' (opt_int limit) else params);
          params = (if py_truthy (opt_str sort') then dict_set params ''sort'' (opt_str sort') else params)
      in (path, Some params))"

definition get_inflation_data ::
  "env \<Rightarrow> string option \<Rightarrow> int option \<Rightarrow> string option \<Rightarrow> pyexn + string" where
  "get_inflation_data e date limit sort' =
     except_Exception (fetch_json e (get_inflation_data_request date limit sort'))"

section \<open>The tools with a body of their own\<close>

text \<open>
  \<^verbatim>\<open>datetime.fromtimestamp(t / 1000, tz=timezone.utc)\<close> for a value \<open>t\<close>
  taken from the upstream body, as whole seconds. For an integer the quotient
  is rounded down; a boolean counts as 0 or 1; the arithmetic on a float is
  left to the environment; any other value cannot be divided.
\<close>

fun timestamp_ms :: "env \<Rightarrow> pyval \<Rightarrow> pyexn + int" where
  "timestamp_ms e (PyInt n) = datetime_fromtimestamp (n div 1000)"
| "timestamp_ms e (PyBool b) = datetime_fromtimestamp 0"
| "timestamp_ms e (PyFloat r) = float_ms_fromtimestamp e r"
| "timestamp_ms e _ = Inl (TypeError ''unsupported operand type(s) for /'')"

fun isinstance_dict :: "pyval \<Rightarrow> bool" where
  "isinstance_dict (PyDict d) = True"
| "isinstance_dict _ = False"

text \<open>\<^verbatim>\<open>seq[0]\<close>.\<close>

fun py_index0 :: "pyval \<Rightarrow> pyexn + pyval" where
  "py_index0 (PyList (x # xs)) = Inr x"
| "py_index0 (PyList []) = Inl (IndexError ''list index out of range'')"
| "py_index0 (PyStr (c # s)) = Inr (PyStr [c])"
| "py_index0 (PyStr []) = Inl (IndexError ''string index out of range'')"
| "py_index0 (PyDict d) = Inl (KeyError ''0'')"
| "py_index0 _ = Inl (TypeError ''object is not subscriptable'')"

text \<open>\<^verbatim>\<open>obj[key] = value\<close> for a string key.\<close>

fun py_setitem :: "pyval \<Rightarrow> string \<Rightarrow> pyval \<Rightarrow> pyexn + pyval" where
  "py_setitem (PyDict d) k v = Inr (PyDict (dict_set d k v))"
| "py_setitem _ k v = Inl (TypeError ''object does not support item assignment'')"

text \<open>
  \<^verbatim>\<open>stock_price\<close>, \<^verbatim>\<open>stock_info\<close> and \<^verbatim>\<open>income_statement\<close> have no
  \<^verbatim>\<open>try\<close>: an exception of \<^verbatim>\<open>_polygon_get\<close> or of the lines after it
  leaves the function. The \<^verbatim>\<open>print\<close> of \<^verbatim>\<open>stock_price\<close> only writes to the
  console and is left out.
\<close>

definition close_of :: "env \<Rightarrow> pyval \<Rightarrow> pyexn + pyval" where
  "close_of e point =
     bind_exn (py_get point ''t'' (PyInt 0)) (\<lambda>t.
     bind_exn (timestamp_ms e t) (\<lambda>dt.
     bind_exn (py_get point ''c'' PyNone) (\<lambda>c.
       Inr (PyDict [(''date'', PyStr (strftime_date dt)), (''close'', c)]))))"

definition stock_price_path :: "env \<Rightarrow> string \<Rightarrow> pyexn + string" where
  "stock_price_path e stock_ticker =
     (let end_dt = utc_now e in
      bind_exn (datetime_add end_dt (- (30 * 86400))) (\<lambda>start_dt.
        Inr (''/v2/aggs/ticker/'' @ py_upper stock_ticker @ ''/range/1/day/''
               @ iso_date start_dt @ ''/'' @ iso_date end_dt)))"

definition stock_price_params :: dict where
  "stock_price_params =
     [(''adjusted'', PyStr ''true''), (''sort'', PyStr ''asc''), (''limit'', PyInt 5000)]"

definition stock_price :: "env \<Rightarrow> string \<Rightarrow> pyexn + string" where
  "stock_price e stock_ticker =
     bind_exn (stock_price_path e stock_ticker) (\<lambda>path.
     bind_exn (polygon_get e path (Some stock_price_params)) (\<lambda>data.
     bind_exn (py_get data ''results'' (PyList [])) (\<lambda>r.
       let results = (if py_truthy r then r else PyList []) in
       bind_exn (py_iter results) (\<lambda>points.
       bind_exn (map_exn (close_of e) (filter isinstance_dict points)) (\<lambda>closes.
         Inr (''Stock price over the last month for '' @ stock_ticker @ '': ''
                @ py_str (PyList closes)))))))"

definition stock_info :: "env \<Rightarrow> string \<Rightarrow> pyexn + string" where
  "stock_info e stock_ticker =
     (let path = ''/v3/reference/tickers/'' @ py_upper stock_ticker in
      bind_exn (polygon_get e path None) (\<lambda>data.
      bind_exn (py_get data ''results'' (PyDict [])) (\<lambda>info.
        Inr (''Background information for '' @ stock_ticker @ '': '' @ py_str info))))"

definition income_statement_params :: "string \<Rightarrow> dict" where
  "income_statement_params stock_ticker =
     [(''ticker'', PyStr (py_upper stock_ticker)), (''timeframe'', PyStr ''quarterly''),
      (''limit'', PyInt 1), (''order'', PyStr ''desc'')]"

definition income_statement :: "env \<Rightarrow> string \<Rightarrow> pyexn + string" where
  "income_statement e stock_ticker =
     (let params = income_statement_params stock_ticker in
      bind_exn (polygon_get e ''/vX/reference/financials'' (Some params)) (\<lambda>fin.
      bind_exn (py_get fin ''results'' PyNone) (\<lambda>r.
        let results = (if py_truthy r then r else PyList []) in
        bind_exn (if py_truthy results then py_index0 results else Inr (PyDict [])) (\<lambda>latest.
          Inr (''Income statement for '' @ stock_ticker @ '': '' @ py_str latest)))))"

text \<open>
  \<^verbatim>\<open>convert_utc_to_et(utc_timestamp)\<close>: Eastern Time is the UTC time plus
  \<^verbatim>\<open>timedelta(hours=-5)\<close>.
\<close>

definition et_offset :: int where
  "et_offset = - 5 * 3600"


text \<open>
  \<^verbatim>\<open>get_intraday_aggregates\<close>. The body of the loop over
  \<^verbatim>\<open>data["results"]\<close> is \<open>augment_result\<close>; it changes a bar only through
  the two assignments. The loop visits the elements of a list, the keys of a
  dictionary or the characters of a string; only the elements of a list are
  objects that the assignments can change, so only then does the loop change
  \<^verbatim>\<open>data\<close>. An exception in any round ends the tool with the error string.
\<close>

definition get_intraday_aggregates_request ::
  "string \<Rightarrow> int \<Rightarrow> string \<Rightarrow> date_arg \<Rightarrow> date_arg \<Rightarrow> bool option \<Rightarrow> string option
     \<Rightarrow> int option \<Rightarrow> bool option \<Rightarrow> string \<times> dict option" where
  "get_intraday_aggregates_request ticker multiplier timespan from_date to_date adjusted sort'
       limit include_otc =
     (let path = ''/v2/aggs/ticker/'' @ py_upper ticker @ ''/range/'' @ str_int multiplier
                   @ ''/'' @ timespan @ ''/'' @ date_text from_date @ ''/'' @ date_text to_date;
          params = [];
          params = (if adjusted \<noteq> None
                    then dict_set params ''adjusted'' (PyStr (py_lower (py_str (opt_bool adjusted))))
                    else params);
          params = (if py_truthy (opt_str sort') then dict_set params ''sort'' (opt_str sort') else params);
          params = (if py_truthy (opt_int limit) then dict_set params ''limit'' (opt_int limit) else params);
          params = (if or_default include_otc False
                    then dict_set params ''include_otc'' (PyStr ''true'') else params)
      in (path, Some params))"

definition augment_result :: "env \<Rightarrow> pyval \<Rightarrow> pyexn + pyval" where
  "augment_result e result =
     bind_exn (py_contains ''t'' result) (\<lambda>has_t.
       if has_t then
         bind_exn (py_getitem result ''t'') (\<lambda>t.
         bind_exn (timestamp_ms e t) (\<lambda>utc_time.
         bind_exn (datetime_add utc_time et_offset) (\<lambda>et_time.
         bind_exn (py_setitem result ''market_session''
                     (PyStr (determine_market_session (datetime_hour et_time)
                               (datetime_minute et_time)))) (\<lambda>result.
           py_setitem result ''et_time'' (PyStr (strftime_datetime et_time @ '' ET''))))))
       else Inr result)"

definition add_market_sessions :: "env \<Rightarrow> pyval \<Rightarrow> pyexn + pyval" where
  "add_market_sessions e data =
     bind_exn (py_contains ''results'' data) (\<lambda>has_results.
       if \<not> has_results then Inr data
       else
         bind_exn (py_getitem data ''results'') (\<lambda>results.
           if \<not> py_truthy results then Inr data
           else
             bind_exn (py_iter results) (\<lambda>items.
             bind_exn (map_exn (augment_result e) items) (\<lambda>items'.
               case results of
                 PyList _ \<Rightarrow> py_setitem data ''results'' (PyList items')
               | _ \<Rightarrow> Inr data))))"

definition get_intraday_aggregates ::
  "env \<Rightarrow> string \<Rightarrow> int \<Rightarrow> string \<Rightarrow> date_arg \<Rightarrow> date_arg \<Rightarrow> bool option \<Rightarrow> string option
     \<Rightarrow> int option \<Rightarrow> bool option \<Rightarrow> pyexn + string" where
  "get_intraday_aggregates e ticker multiplier timespan from_date to_date adjusted sort' limit
       include_otc =
     except_Exception
       (let req = get_intraday_aggregates_request ticker multiplier timespan from_date to_date
                    adjusted sort' limit include_otc
        in bind_exn (polygon_get e (fst req) (snd req)) (\<lambda>data.
           bind_exn (add_market_sessions e data) (\<lambda>data.
             Inr (json_dumps data))))"

text \<open>\<^verbatim>\<open>get_ticker_exchange_info(ticker)\<close>.\<close>

definition exchange_fields :: "string list" where
  "exchange_fields =
     [''primary_exchange'', ''market'', ''locale'', ''type'', ''active'', ''currency_name'',
      ''cik'', ''composite_figi'', ''share_class_figi'']"

definition polygon_coverage :: pyval where
  "polygon_coverage = PyDict
     [(''data_available'', PyStr ''Real-time trades, quotes, and market events''),
      (''exchange_feed'', PyStr ''Direct feed from primary exchange''),
      (''sip_integration'', PyStr ''Included in consolidated SIP feeds''),
      (''market_sessions'',
         PyList [PyStr ''pre_market'', PyStr ''regular_market'', PyStr ''after_hours''])]"

definition get_ticker_exchange_info :: "env \<Rightarrow> string \<Rightarrow> pyexn + string" where
  "get_ticker_exchange_info e ticker =
     except_Exception
       (let path = ''/v3/reference/tickers/'' @ py_upper ticker in
        bind_exn (polygon_get e path None) (\<lambda>data.
        bind_exn (py_contains ''results'' data) (\<lambda>has_results.
        bind_exn (if has_results
                  then bind_exn (py_getitem data ''results'') (\<lambda>r. Inr (py_truthy r))
                  else Inr False) (\<lambda>found.
          if found then
            bind_exn (py_getitem data ''results'') (\<lambda>ticker_info.
            bind_exn (map_exn (\<lambda>k. py_get ticker_info k PyNone) exchange_fields) (\<lambda>vals.
              let exchange_coverage = PyDict
                    ([(''ticker'', PyStr (py_upper ticker))] @ zip exchange_fields vals
                       @ [(''polygon_coverage'', polygon_coverage)])
              in Inr (json_dumps exchange_coverage)))
          else Inr (json_dumps
                      (PyDict [(''error'', PyStr (''No data found for ticker '' @ ticker))]))))))"

section \<open>Registration of the tools\<close>

text \<open>
  Running the module executes its top-level statements in order. A function
  under \<^verbatim>\<open>@mcp.tool()\<close> is added to the registry of \<^verbatim>\<open>mcp\<close> when its
  \<^verbatim>\<open>def\<close> is executed. The block \<^verbatim>\<open>if __name__ == "__main__":\<close> calls
  \<^verbatim>\<open>mcp.run\<close>, which serves invocations until the server stops and only
  then returns. The state records the registry and, once \<^verbatim>\<open>mcp.run\<close> has
  been entered, the registry that the server started to serve with.
\<close>

datatype statement =
    Tool string
  | Prompt string
  | Resource string
  | Run_if_main

record mcp_state =
  registry :: "string list"
  serving_started_with :: "string list option"

definition mcp_initial :: mcp_state where
  "mcp_initial = \<lparr>registry = [], serving_started_with = None\<rparr>"

fun exec_statement :: "bool \<Rightarrow> mcp_state \<Rightarrow> statement \<Rightarrow> mcp_state" where
  "exec_statement is_main s (Tool name) =
     (if name \<in> set (registry s) then s else s\<lparr>registry := registry s @ [name]\<rparr>)"
| "exec_statement is_main s (Prompt name) = s"
| "exec_statement is_main s (Resource name) = s"
| "exec_statement is_main s Run_if_main =
     (if is_main then s\<lparr>serving_started_with := Some (registry s)\<rparr> else s)"

definition exec_module :: "bool \<Rightarrow> statement list \<Rightarrow> mcp_state" where
  "exec_module is_main stmts = foldl (exec_statement is_main) mcp_initial stmts"

text \<open>The statements of \<^verbatim>\<open>server.py\<close> that touch \<^verbatim>\<open>mcp\<close>, in file order.\<close>

definition server_py :: "statement list" where
  "server_py =
     [Prompt ''stock_summary'',
      Resource ''tickers://search/{stock_name}'',
      Tool ''stock_price'',
      Tool ''stock_info'',
      Tool ''income_statement'',
      Tool ''get_aggregates'',
      Tool ''get_previous_close'',
      Tool ''get_last_trade'',
      Tool ''get_last_quote'',
      Tool ''get_snapshot_ticker'',
      Tool ''get_market_status'',
      Tool ''search_tickers'',
      Tool ''get_ticker_news'',
      Tool ''get_dividends'',
      Tool ''get_splits'',
      Tool ''get_treasury_yields'',
      Run_if_main,
      Tool ''get_market_hours_info'',
      Tool ''convert_utc_to_et'',
      Tool ''get_exchange_info'',
      Tool ''get_intraday_aggregates'',
      Tool ''get_sip_info'',
      Tool ''get_market_data_coverage'',
      Tool ''get_ticker_exchange_info'',
      Tool ''get_earnings'',
      Tool ''get_analyst_ratings'',
      Tool ''get_short_interest'',
      Tool ''get_options_contracts'',
      Tool ''get_options_snapshot'',
      Tool ''get_balance_sheet'',
      Tool ''get_cash_flow'',
      Tool ''get_market_gainers_losers'',
      Tool ''get_market_holidays'',
      Tool ''get_inflation_data'']"

section \<open>The query of a request\<close>

text \<open>
  The keys and the entries of the query mapping that a builder hands to
  \<^verbatim>\<open>_polygon_get\<close>; a tool that passes no mapping has no keys.
\<close>

definition query_keys :: "string \<times> dict option \<Rightarrow> string set" where
  "query_keys req = (case snd req of None \<Rightarrow> {} | Some params \<Rightarrow> set (dict_keys params))"

definition query_get :: "string \<times> dict option \<Rightarrow> string \<Rightarrow> pyval option" where
  "query_get req k = (case snd req of None \<Rightarrow> None | Some params \<Rightarrow> dict_get params k)"

section \<open>A stubbed upstream\<close>

text \<open>
  An environment whose \<^verbatim>\<open>requests.get\<close> answers every request with the
  same response.
\<close>

definition stub_env :: "string option \<Rightarrow> response \<Rightarrow> int \<Rightarrow> env" where
  "stub_env api_key r now =
     \<lparr>POLYGON_API_KEY = api_key,
      requests_get = (\<lambda>url params timeout. Inr r),
      utc_now = now,
      float_ms_fromtimestamp = (\<lambda>t. Inl (ValueError ''no float timestamps in the stub''))\<rparr>"

definition http_response :: "int \<Rightarrow> string \<Rightarrow> pyval \<Rightarrow> response" where
  "http_response status phrase body =
     \<lparr>status_code = status, reason = phrase, url = ''https://api.polygon.io/'', json = Inr body\<rparr>"

text \<open>
  An environment whose \<^verbatim>\<open>requests.get\<close> refuses every request with a
  connection error that names the request it was given: the URL, the query
  and the timeout. What a tool sends can be read off its result.
\<close>

definition request_record :: "string \<Rightarrow> dict \<Rightarrow> int \<Rightarrow> pyval" where
  "request_record u params timeout =
     PyDict [(''url'', PyStr u), (''params'', PyDict params), (''timeout'', PyInt timeout)]"

definition refusing_env :: "string option \<Rightarrow> int \<Rightarrow> env" where
  "refusing_env api_key now =
     \<lparr>POLYGON_API_KEY = api_key,
      requests_get = (\<lambda>u params timeout.
        Inl (ConnectionError (py_repr (request_record u params timeout)))),
      utc_now = now,
      float_ms_fromtimestamp = (\<lambda>t. Inl (ValueError ''no float timestamps in the stub''))\<rparr>"

section \<open>Properties\<close>

subsection \<open>Dictionaries\<close>

lemma dict_keys_dict_set_list:
  "dict_keys (dict_set d k v) = (if k \<in> set (dict_keys d) then dict_keys d else dict_keys d @ [k])"
proof (induction d)
  case Nil
  show ?case by (simp add: dict_keys_def)
next
  case (Cons kv d)
  obtain k' v' where kv: "kv = (k', v')" by (cases kv)
  from Cons show ?case unfolding kv dict_keys_def by (cases "k' = k") simp_all
qed

lemma dict_keys_dict_set: "set (dict_keys (dict_set d k v)) = insert k (set (dict_keys d))"
  by (auto simp: dict_keys_dict_set_list)

lemma dict_get_dict_set:
  "dict_get (dict_set d k v) k' = (if k' = k then Some v else dict_get d k')"
proof (induction d)
  case Nil
  show ?case by (simp add: dict_get_def)
next
  case (Cons kv d)
  obtain k1 v1 where kv: "kv = (k1, v1)" by (cases kv)
  from Cons show ?case unfolding kv dict_get_def by (cases "k1 = k") (auto split: if_splits)
qed

lemma dict_set_append: "k \<notin> set (dict_keys d) \<Longrightarrow> dict_set d k v = d @ [(k, v)]"
  by (induction d) (auto simp: dict_keys_def)

lemma distinct_dict_set: "distinct (dict_keys d) \<Longrightarrow> distinct (dict_keys (dict_set d k v))"
  by (simp add: dict_keys_dict_set_list)

lemma count_list_distinct: "distinct xs \<Longrightarrow> x \<in> set xs \<Longrightarrow> count_list xs x = 1"
  by (induction xs) auto

lemma dict_keys_Nil: "dict_keys [] = []"
  by (simp add: dict_keys_def)

lemma dict_get_Nil: "dict_get [] k = None"
  by (simp add: dict_get_def)

lemma dict_get_Cons: "dict_get ((k, v) # d) k' = (if k' = k then Some v else dict_get d k')"
  by (auto simp: dict_get_def)

lemma dict_keys_Cons: "dict_keys ((k, v) # d) = k # dict_keys d"
  by (simp add: dict_keys_def)

lemma dict_keys_step:
  "set (dict_keys (if c then dict_set d k v else d)) = (if c then {k} else {}) \<union> set (dict_keys d)"
  by (simp add: dict_keys_dict_set)

lemma dict_get_step:
  "dict_get (if c then dict_set d k v else d) k' = (if c \<and> k' = k then Some v else dict_get d k')"
  by (simp add: dict_get_dict_set)

lemmas keys_simps = query_keys_def Let_def dict_keys_step dict_keys_Nil dict_keys_Cons

lemma lower_False: "py_lower (py_str (opt_bool (Some False))) = ''false''"
  by code_simp

lemma lower_True: "py_lower (py_str (opt_bool (Some True))) = ''true''"
  by code_simp

lemmas falsy_simps = opt_str_def opt_int_def opt_float_def float_is_zero_def or_default_def

subsection \<open>The session classifier\<close>

text \<open>
  Claim C5. With \<open>m = hour * 60 + minute\<close> the classifier answers
  \<open>pre_market\<close> for \<open>m\<close> in \<open>[240, 570)\<close>, \<open>regular_market\<close> for \<open>m\<close> in
  \<open>[570, 960)\<close>, \<open>after_hours\<close> for \<open>m\<close> in \<open>[960, 1200)\<close> and
  \<open>market_closed\<close> for every other \<open>m\<close>; the five sample points of the
  specification, the boundary 9:30 among them, come out as stated.
\<close>

theorem determine_market_session_ranges:
  "(240 \<le> hour * 60 + minute \<and> hour * 60 + minute < 570
      \<longrightarrow> determine_market_session hour minute = ''pre_market'')
   \<and> (570 \<le> hour * 60 + minute \<and> hour * 60 + minute < 960
      \<longrightarrow> determine_market_session hour minute = ''regular_market'')
   \<and> (960 \<le> hour * 60 + minute \<and> hour * 60 + minute < 1200
      \<longrightarrow> determine_market_session hour minute = ''after_hours'')
   \<and> (hour * 60 + minute < 240 \<or> 1200 \<le> hour * 60 + minute
      \<longrightarrow> determine_market_session hour minute = ''market_closed'')
   \<and> determine_market_session 5 0 = ''pre_market''
   \<and> determine_market_session 10 0 = ''regular_market''
   \<and> determine_market_session 17 0 = ''after_hours''
   \<and> determine_market_session 22 0 = ''market_closed''
   \<and> determine_market_session 9 30 = ''regular_market''"
  by (simp add: determine_market_session_def Let_def)

theorem determine_market_session_ranges_witness:
  "570 \<le> (9::int) * 60 + 30 \<and> (9::int) * 60 + 30 < 960
   \<and> determine_market_session 9 30 = ''regular_market''
   \<and> 240 \<le> (4::int) * 60 + 0 \<and> (4::int) * 60 + 0 < 570
   \<and> determine_market_session 4 0 = ''pre_market''
   \<and> 960 \<le> (19::int) * 60 + 59 \<and> (19::int) * 60 + 59 < 1200
   \<and> determine_market_session 19 59 = ''after_hours''
   \<and> 1200 \<le> (20::int) * 60 + 0
   \<and> determine_market_session 20 0 = ''market_closed''"
  using determine_market_session_ranges [of 9 30]
        determine_market_session_ranges [of 4 0]
        determine_market_session_ranges [of 19 59]
        determine_market_session_ranges [of 20 0]
  by simp

subsection \<open>Which keys a builder puts into the query\<close>

lemma get_aggregates_keys:
  "((k \<in> query_keys (get_aggregates_request ticker multiplier timespan from_date to_date
                      adjusted sort' limit)) \<longleftrightarrow>
       k = ''adjusted'' \<and> adjusted \<noteq> None \<or>
       k = ''sort'' \<and> py_truthy (opt_str sort') \<or>
       k = ''limit'' \<and> py_truthy (opt_int limit))"
  unfolding get_aggregates_request_def by (simp only: keys_simps snd_conv option.case) auto

lemma get_previous_close_keys:
  "((k \<in> query_keys (get_previous_close_request ticker adjusted)) \<longleftrightarrow>
       k = ''adjusted'' \<and> adjusted \<noteq> None)"
  unfolding get_previous_close_request_def by (simp only: keys_simps snd_conv option.case) auto

lemma get_last_trade_keys:
  "k \<notin> query_keys (get_last_trade_request ticker)"
  unfolding get_last_trade_request_def by (simp only: keys_simps snd_conv option.case) auto

lemma get_last_quote_keys:
  "k \<notin> query_keys (get_last_quote_request ticker)"
  unfolding get_last_quote_request_def by (simp only: keys_simps snd_conv option.case) auto

lemma get_snapshot_ticker_keys:
  "k \<notin> query_keys (get_snapshot_ticker_request market_type ticker)"
  unfolding get_snapshot_ticker_request_def by (simp only: keys_simps snd_conv option.case) auto

lemma get_market_status_keys:
  "k \<notin> query_keys (get_market_status_request)"
  unfolding get_market_status_request_def by (simp only: keys_simps snd_conv option.case) auto

lemma search_tickers_keys:
  "((k \<in> query_keys (search_tickers_request search type' market active limit sort' order)) \<longleftrightarrow>
       k = ''search'' \<and> py_truthy (opt_str search) \<or>
       k = ''type'' \<and> py_truthy (opt_str type') \<or>
       k = ''market'' \<and> py_truthy (opt_str market) \<or>
       k = ''active'' \<and> active \<noteq> None \<or>
       k = ''limit'' \<and> py_truthy (opt_int limit) \<or>
       k = ''sort'' \<and> py_truthy (opt_str sort') \<or>
       k = ''order'' \<and> py_truthy (opt_str order))"
  unfolding search_tickers_request_def by (simp only: keys_simps snd_conv option.case) auto

lemma get_ticker_news_keys:
  "((k \<in> query_keys (get_ticker_news_request ticker_opt published_utc limit sort' order)) \<longleftrightarrow>
       k = ''ticker'' \<and> py_truthy (opt_str ticker_opt) \<or>
       k = ''published_utc'' \<and> py_truthy (opt_str published_utc) \<or>
       k = ''limit'' \<and> py_truthy (opt_int limit) \<or>
       k = ''sort'' \<and> py_truthy (opt_str sort') \<or>
       k = ''order'' \<and> py_truthy (opt_str order))"
  unfolding get_ticker_news_request_def by (simp only: keys_simps snd_conv option.case) auto

lemma get_dividends_keys:
  "((k \<in> query_keys (get_dividends_request ticker_opt ex_dividend_date frequency
                      dividend_type limit)) \<longleftrightarrow>
       k = ''ticker'' \<and> py_truthy (opt_str ticker_opt) \<or>
       k = ''ex_dividend_date'' \<and> py_truthy (opt_str ex_dividend_date) \<or>
       k = ''frequency'' \<and> py_truthy (opt_int frequency) \<or>
       k = ''dividend_type'' \<and> py_truthy (opt_str dividend_type) \<or>
       k = ''limit'' \<and> py_truthy (opt_int limit))"
  unfolding get_dividends_request_def by (simp only: keys_simps snd_conv option.case) auto

lemma get_splits_keys:
  "((k \<in> query_keys (get_splits_request ticker_opt execution_date reverse_split limit)) \<longleftrightarrow>
       k = ''ticker'' \<and> py_truthy (opt_str ticker_opt) \<or>
       k = ''execution_date'' \<and> py_truthy (opt_str execution_date) \<or>
       k = ''reverse_split'' \<and> reverse_split \<noteq> None \<or>
       k = ''limit'' \<and> py_truthy (opt_int limit))"
  unfolding get_splits_request_def by (simp only: keys_simps snd_conv option.case) auto

lemma get_treasury_yields_keys:
  "((k \<in> query_keys (get_treasury_yields_request date limit sort' order)) \<longleftrightarrow>
       k = ''date'' \<and> py_truthy (opt_str date) \<or>
       k = ''limit'' \<and> py_truthy (opt_int limit) \<or>
       k = ''sort'' \<and> py_truthy (opt_str sort') \<or>
       k = ''order'' \<and> py_truthy (opt_str order))"
  unfolding get_treasury_yields_request_def by (simp only: keys_simps snd_conv option.case) auto

lemma get_intraday_aggregates_keys:
  "((k \<in> query_keys (get_intraday_aggregates_request ticker multiplier timespan from_date
                      to_date adjusted sort' limit include_otc)) \<longleftrightarrow>
       k = ''adjusted'' \<and> adjusted \<noteq> None \<or>
       k = ''sort'' \<and> py_truthy (opt_str sort') \<or>
       k = ''limit'' \<and> py_truthy (opt_int limit) \<or>
       k = ''include_otc'' \<and> or_default include_otc False)"
  unfolding get_intraday_aggregates_request_def by (simp only: keys_simps snd_conv option.case) auto

lemma get_earnings_keys:
  "((k \<in> query_keys (get_earnings_request ticker_opt date limit sort' order)) \<longleftrightarrow>
       k = ''ticker'' \<and> py_truthy (opt_str ticker_opt) \<or>
       k = ''date'' \<and> py_truthy (opt_str date) \<or>
       k = ''limit'' \<and> py_truthy (opt_int limit) \<or>
       k = ''sort'' \<and> py_truthy (opt_str sort') \<or>
       k = ''order'' \<and> py_truthy (opt_str order))"
  unfolding get_earnings_request_def by (simp only: keys_simps snd_conv option.case) auto

lemma get_analyst_ratings_keys:
  "((k \<in> query_keys (get_analyst_ratings_request ticker_opt date limit sort' order)) \<longleftrightarrow>
       k = ''ticker'' \<and> py_truthy (opt_str ticker_opt) \<or>
       k = ''date'' \<and> py_truthy (opt_str date) \<or>
       k = ''limit'' \<and> py_truthy (opt_int limit) \<or>
       k = ''sort'' \<and> py_truthy (opt_str sort') \<or>
       k = ''order'' \<and> py_truthy (opt_str order))"
  unfolding get_analyst_ratings_request_def by (simp only: keys_simps snd_conv option.case) auto

lemma get_short_interest_keys:
  "((k \<in> query_keys (get_short_interest_request ticker_opt settlement_date limit sort' order)) \<longleftrightarrow>
       k = ''ticker'' \<and> py_truthy (opt_str ticker_opt) \<or>
       k = ''settlement_date'' \<and> py_truthy (opt_str settlement_date) \<or>
       k = ''limit'' \<and> py_truthy (opt_int limit) \<or>
       k = ''sort'' \<and> py_truthy (opt_str sort') \<or>
       k = ''order'' \<and> py_truthy (opt_str order))"
  unfolding get_short_interest_request_def by (simp only: keys_simps snd_conv option.case) auto

lemma get_options_contracts_keys:
  "((k \<in> query_keys (get_options_contracts_request underlying_asset contract_type
                      strike_price expiration_date limit)) \<longleftrightarrow>
       k = ''underlying_asset'' \<or>
       k = ''contract_type'' \<and> py_truthy (opt_str contract_type) \<or>
       k = ''strike_price'' \<and> py_truthy (opt_float strike_price) \<or>
       k = ''expiration_date'' \<and> py_truthy (opt_str expiration_date) \<or>
       k = ''limit'' \<and> py_truthy (opt_int limit))"
  unfolding get_options_contracts_request_def by (simp only: keys_simps snd_conv option.case) auto

lemma get_options_snapshot_keys:
  "((k \<in> query_keys (get_options_snapshot_request underlying_asset strike_price
                      expiration_date contract_type)) \<longleftrightarrow>
       k = ''strike_price'' \<and> py_truthy (opt_float strike_price) \<or>
       k = ''expiration_date'' \<and> py_truthy (opt_str expiration_date) \<or>
       k = ''contract_type'' \<and> py_truthy (opt_str contract_type))"
  unfolding get_options_snapshot_request_def by (simp only: keys_simps snd_conv option.case) auto

lemma get_balance_sheet_keys:
  "((k \<in> query_keys (get_balance_sheet_request ticker timeframe limit order)) \<longleftrightarrow>
       k = ''ticker'' \<or>
       k = ''timeframe'' \<or>
       k = ''order'' \<or>
       k = ''limit'' \<and> py_truthy (opt_int limit))"
  unfolding get_balance_sheet_request_def by (simp only: keys_simps snd_conv option.case) auto

lemma get_cash_flow_keys:
  "((k \<in> query_keys (get_cash_flow_request ticker timeframe limit order)) \<longleftrightarrow>
       k = ''ticker'' \<or>
       k = ''timeframe'' \<or>
       k = ''order'' \<or>
       k = ''limit'' \<and> py_truthy (opt_int limit))"
  unfolding get_cash_flow_request_def by (simp only: keys_simps snd_conv option.case) auto

lemma get_market_gainers_losers_keys:
  "((k \<in> query_keys (get_market_gainers_losers_request direction include_otc limit)) \<longleftrightarrow>
       k = ''include_otc'' \<and> or_default include_otc False \<or>
       k = ''limit'' \<and> py_truthy (opt_int limit))"
  unfolding get_market_gainers_losers_request_def by (simp only: keys_simps snd_conv option.case) auto

lemma get_market_holidays_keys:
  "k \<notin> query_keys (get_market_holidays_request)"
  unfolding get_market_holidays_request_def by (simp only: keys_simps snd_conv option.case) auto

lemma get_inflation_data_keys:
  "((k \<in> query_keys (get_inflation_data_request date limit sort')) \<longleftrightarrow>
       k = ''date'' \<and> py_truthy (opt_str date) \<or>
       k = ''limit'' \<and> py_truthy (opt_int limit) \<or>
       k = ''sort'' \<and> py_truthy (opt_str sort'))"
  unfolding get_inflation_data_request_def by (simp only: keys_simps snd_conv option.case) auto

lemma fixed_params_keys:
  "set (dict_keys stock_price_params) = {''adjusted'', ''sort'', ''limit''}"
  "set (dict_keys (income_statement_params stock_ticker)) =
     {''ticker'', ''timeframe'', ''limit'', ''order''}"
  by (auto simp: stock_price_params_def income_statement_params_def dict_keys_def)

text \<open>
  Claim C6, as amended. For every builder the query holds a key exactly when
  the builder sets it: the key of a parameter with the default \<^verbatim>\<open>None\<close>
  is present if and only if the argument is truthy (for \<^verbatim>\<open>adjusted\<close>,
  \<^verbatim>\<open>active\<close> and \<^verbatim>\<open>reverse_split\<close>: is not \<^verbatim>\<open>None\<close>), the key
  \<^verbatim>\<open>include_otc\<close> if and only if the flag is true, so an omitted argument of
  these kinds leaves no key. The keys \<^verbatim>\<open>ticker\<close>, \<^verbatim>\<open>timeframe\<close> and
  \<^verbatim>\<open>order\<close> of \<^verbatim>\<open>get_balance_sheet\<close> and \<^verbatim>\<open>get_cash_flow\<close>, and
  \<^verbatim>\<open>underlying_asset\<close> of \<^verbatim>\<open>get_options_contracts\<close>, are in the query
  of every call. No builder puts in a key that is not a parameter of its own
  tool; \<^verbatim>\<open>stock_price\<close> and \<^verbatim>\<open>income_statement\<close> send a fixed query.
\<close>

theorem query_keys_of_builders:
  "((k \<in> query_keys (get_aggregates_request ticker multiplier timespan from_date to_date
                       adjusted sort' limit)) \<longleftrightarrow>
        k = ''adjusted'' \<and> adjusted \<noteq> None \<or>
        k = ''sort'' \<and> py_truthy (opt_str sort') \<or>
        k = ''limit'' \<and> py_truthy (opt_int limit)) \<and>
   ((k \<in> query_keys (get_previous_close_request ticker adjusted)) \<longleftrightarrow>
        k = ''adjusted'' \<and> adjusted \<noteq> None) \<and>
   k \<notin> query_keys (get_last_trade_request ticker) \<and>
   k \<notin> query_keys (get_last_quote_request ticker) \<and>
   k \<notin> query_keys (get_snapshot_ticker_request market_type ticker) \<and>
   k \<notin> query_keys (get_market_status_request) \<and>
   ((k \<in> query_keys (search_tickers_request search type' market active limit sort' order)) \<longleftrightarrow>
        k = ''search'' \<and> py_truthy (opt_str search) \<or>
        k = ''type'' \<and> py_truthy (opt_str type') \<or>
        k = ''market'' \<and> py_truthy (opt_str market) \<or>
        k = ''active'' \<and> active \<noteq> None \<or>
        k = ''limit'' \<and> py_truthy (opt_int limit) \<or>
        k = ''sort'' \<and> py_truthy (opt_str sort') \<or>
        k = ''order'' \<and> py_truthy (opt_str order)) \<and>
   ((k \<in> query_keys (get_ticker_news_request ticker_opt published_utc limit sort' order)) \<longleftrightarrow>
        k = ''ticker'' \<and> py_truthy (opt_str ticker_opt) \<or>
        k = ''published_utc'' \<and> py_truthy (opt_str published_utc) \<or>
        k = ''limit'' \<and> py_truthy (opt_int limit) \<or>
        k = ''sort'' \<and> py_truthy (opt_str sort') \<or>
        k = ''order'' \<and> py_truthy (opt_str order)) \<and>
   ((k \<in> query_keys (get_dividends_request ticker_opt ex_dividend_date frequency
                       dividend_type limit)) \<longleftrightarrow>
        k = ''ticker'' \<and> py_truthy (opt_str ticker_opt) \<or>
        k = ''ex_dividend_date'' \<and> py_truthy (opt_str ex_dividend_date) \<or>
        k = ''frequency'' \<and> py_truthy (opt_int frequency) \<or>
        k = ''dividend_type'' \<and> py_truthy (opt_str dividend_type) \<or>
        k = ''limit'' \<and> py_truthy (opt_int limit)) \<and>
   ((k \<in> query_keys (get_splits_request ticker_opt execution_date reverse_split limit)) \<longleftrightarrow>
        k = ''ticker'' \<and> py_truthy (opt_str ticker_opt) \<or>
        k = ''execution_date'' \<and> py_truthy (opt_str execution_date) \<or>
        k = ''reverse_split'' \<and> reverse_split \<noteq> None \<or>
        k = ''limit'' \<and> py_truthy (opt_int limit)) \<and>
   ((k \<in> query_keys (get_treasury_yields_request date limit sort' order)) \<longleftrightarrow>
        k = ''date'' \<and> py_truthy (opt_str date) \<or>
        k = ''limit'' \<and> py_truthy (opt_int limit) \<or>
        k = ''sort'' \<and> py_truthy (opt_str sort') \<or>
        k = ''order'' \<and> py_truthy (opt_str order)) \<and>
   ((k \<in> query_keys (get_intraday_aggregates_request ticker multiplier timespan from_date
                       to_date adjusted sort' limit include_otc)) \<longleftrightarrow>
        k = ''adjusted'' \<and> adjusted \<noteq> None \<or>
        k = ''sort'' \<and> py_truthy (opt_str sort') \<or>
        k = ''limit'' \<and> py_truthy (opt_int limit) \<or>
        k = ''include_otc'' \<and> or_default include_otc False) \<and>
   ((k \<in> query_keys (get_earnings_request ticker_opt date limit sort' order)) \<longleftrightarrow>
        k = ''ticker'' \<and> py_truthy (opt_str ticker_opt) \<or>
        k = ''date'' \<and> py_truthy (opt_str date) \<or>
        k = ''limit'' \<and> py_truthy (opt_int limit) \<or>
        k = ''sort'' \<and> py_truthy (opt_str sort') \<or>
        k = ''order'' \<and> py_truthy (opt_str order)) \<and>
   ((k \<in> query_keys (get_analyst_ratings_request ticker_opt date limit sort' order)) \<longleftrightarrow>
        k = ''ticker'' \<and> py_truthy (opt_str ticker_opt) \<or>
        k = ''date'' \<and> py_truthy (opt_str date) \<or>
        k = ''limit'' \<and> py_truthy (opt_int limit) \<or>
        k = ''sort'' \<and> py_truthy (opt_str sort') \<or>
        k = ''order'' \<and> py_truthy (opt_str order)) \<and>
   ((k \<in> query_keys (get_short_interest_request ticker_opt settlement_date limit sort' order)) \<longleftrightarrow>
        k = ''ticker'' \<and> py_truthy (opt_str ticker_opt) \<or>
        k = ''settlement_date'' \<and> py_truthy (opt_str settlement_date) \<or>
        k = ''limit'' \<and> py_truthy (opt_int limit) \<or>
        k = ''sort'' \<and> py_truthy (opt_str sort') \<or>
        k = ''order'' \<and> py_truthy (opt_str order)) \<and>
   ((k \<in> query_keys (get_options_contracts_request underlying_asset contract_type
                       strike_price expiration_date limit)) \<longleftrightarrow>
        k = ''underlying_asset'' \<or>
        k = ''contract_type'' \<and> py_truthy (opt_str contract_type) \<or>
        k = ''strike_price'' \<and> py_truthy (opt_float strike_price) \<or>
        k = ''expiration_date'' \<and> py_truthy (opt_str expiration_date) \<or>
        k = ''limit'' \<and> py_truthy (opt_int limit)) \<and>
   ((k \<in> query_keys (get_options_snapshot_request underlying_asset strike_price
                       expiration_date contract_type)) \<longleftrightarrow>
        k = ''strike_price'' \<and> py_truthy (opt_float strike_price) \<or>
        k = ''expiration_date'' \<and> py_truthy (opt_str expiration_date) \<or>
        k = ''contract_type'' \<and> py_truthy (opt_str contract_type)) \<and>
   ((k \<in> query_keys (get_balance_sheet_request ticker timeframe limit order)) \<longleftrightarrow>
        k = ''ticker'' \<or>
        k = ''timeframe'' \<or>
        k = ''order'' \<or>
        k = ''limit'' \<and> py_truthy (opt_int limit)) \<and>
   ((k \<in> query_keys (get_cash_flow_request ticker timeframe limit order)) \<longleftrightarrow>
        k = ''ticker'' \<or>
        k = ''timeframe'' \<or>
        k = ''order'' \<or>
        k = ''limit'' \<and> py_truthy (opt_int limit)) \<and>
   ((k \<in> query_keys (get_market_gainers_losers_request direction include_otc limit)) \<longleftrightarrow>
        k = ''include_otc'' \<and> or_default include_otc False \<or>
        k = ''limit'' \<and> py_truthy (opt_int limit)) \<and>
   k \<notin> query_keys (get_market_holidays_request) \<and>
   ((k \<in> query_keys (get_inflation_data_request date limit sort')) \<longleftrightarrow>
        k = ''date'' \<and> py_truthy (opt_str date) \<or>
        k = ''limit'' \<and> py_truthy (opt_int limit) \<or>
        k = ''sort'' \<and> py_truthy (opt_str sort')) \<and>
   set (dict_keys stock_price_params) = {''adjusted'', ''sort'', ''limit''} \<and>
   set (dict_keys (income_statement_params stock_ticker)) =
     {''ticker'', ''timeframe'', ''limit'', ''order''} \<and>
   \<not> py_truthy (opt_str None) \<and> \<not> py_truthy (opt_int None) \<and> \<not> py_truthy (opt_float None) \<and>
   \<not> or_default None False"
  by (simp only: get_aggregates_keys get_previous_close_keys get_last_trade_keys get_last_quote_keys get_snapshot_ticker_keys get_market_status_keys search_tickers_keys get_ticker_news_keys get_dividends_keys get_splits_keys get_treasury_yields_keys get_intraday_aggregates_keys get_earnings_keys get_analyst_ratings_keys get_short_interest_keys get_options_contracts_keys get_options_snapshot_keys get_balance_sheet_keys get_cash_flow_keys get_market_gainers_losers_keys get_market_holidays_keys get_inflation_data_keys fixed_params_keys
        simp_thms falsy_simps option.case py_truthy.simps)

text \<open>
  The theorem at a call of \<^verbatim>\<open>get_aggregates\<close> that supplies
  \<^verbatim>\<open>adjusted\<close> and \<^verbatim>\<open>sort\<close> and omits \<^verbatim>\<open>limit\<close>.
\<close>

theorem query_keys_of_builders_witness:
  "''limit'' \<notin> query_keys (get_aggregates_request ''AAPL'' 1 ''day'' (DateStr ''2024-01-01'')
                     (DateStr ''2024-01-31'') (Some True) (Some ''asc'') None)
   \<and> ''sort'' \<in> query_keys (get_aggregates_request ''AAPL'' 1 ''day'' (DateStr ''2024-01-01'')
                     (DateStr ''2024-01-31'') (Some True) (Some ''asc'') None)
   \<and> ''adjusted'' \<in> query_keys (get_aggregates_request ''AAPL'' 1 ''day'' (DateStr ''2024-01-01'')
                     (DateStr ''2024-01-31'') (Some True) (Some ''asc'') None)"
proof -
  have h: "(k \<in> query_keys (get_aggregates_request ''AAPL'' 1 ''day'' (DateStr ''2024-01-01'')
                     (DateStr ''2024-01-31'') (Some True) (Some ''asc'') None)) \<longleftrightarrow>
             k = ''adjusted'' \<and> Some True \<noteq> None \<or>
             k = ''sort'' \<and> py_truthy (opt_str (Some ''asc'')) \<or>
             k = ''limit'' \<and> py_truthy (opt_int None)" for k
    by (rule conjunct1 [OF query_keys_of_builders])
  show ?thesis
    by (simp add: h opt_str_def opt_int_def)
qed

text \<open>
  Claim C6 as stated fails: \<^verbatim>\<open>timeframe\<close> is an optional parameter of
  \<^verbatim>\<open>get_balance_sheet\<close>, and a call that omits it (and \<^verbatim>\<open>limit\<close> and
  \<^verbatim>\<open>order\<close>) builds a query that contains the key \<^verbatim>\<open>timeframe\<close>.
\<close>

theorem balance_sheet_default_timeframe_in_query:
  "get_balance_sheet_request ''AAPL'' None None None
     = (''/vX/reference/financials'',
        Some [(''ticker'', PyStr ''AAPL''), (''timeframe'', PyStr ''quarterly''),
              (''order'', PyStr ''desc'')])
   \<and> ''timeframe'' \<in> query_keys (get_balance_sheet_request ''AAPL'' None None None)"
  by code_simp

subsection \<open>A falsy argument and an omitted argument\<close>

lemma get_aggregates_falsy:
  "get_aggregates_request ticker multiplier timespan from_date to_date adjusted (Some [])
     limit
     = get_aggregates_request ticker multiplier timespan from_date to_date adjusted None
         limit \<and>
   get_aggregates_request ticker multiplier timespan from_date to_date adjusted sort' (Some
     0)
     = get_aggregates_request ticker multiplier timespan from_date to_date adjusted sort'
         None"
  by (simp add: get_aggregates_request_def falsy_simps)

lemma search_tickers_falsy:
  "search_tickers_request (Some []) type' market active limit sort' order
     = search_tickers_request None type' market active limit sort' order \<and>
   search_tickers_request search (Some []) market active limit sort' order
     = search_tickers_request search None market active limit sort' order \<and>
   search_tickers_request search type' (Some []) active limit sort' order
     = search_tickers_request search type' None active limit sort' order \<and>
   search_tickers_request search type' market active (Some 0) sort' order
     = search_tickers_request search type' market active None sort' order \<and>
   search_tickers_request search type' market active limit (Some []) order
     = search_tickers_request search type' market active limit None order \<and>
   search_tickers_request search type' market active limit sort' (Some [])
     = search_tickers_request search type' market active limit sort' None"
  by (simp add: search_tickers_request_def falsy_simps)

lemma get_ticker_news_falsy:
  "get_ticker_news_request (Some []) published_utc limit sort' order
     = get_ticker_news_request None published_utc limit sort' order \<and>
   get_ticker_news_request ticker_opt (Some []) limit sort' order
     = get_ticker_news_request ticker_opt None limit sort' order \<and>
   get_ticker_news_request ticker_opt published_utc (Some 0) sort' order
     = get_ticker_news_request ticker_opt published_utc None sort' order \<and>
   get_ticker_news_request ticker_opt published_utc limit (Some []) order
     = get_ticker_news_request ticker_opt published_utc limit None order \<and>
   get_ticker_news_request ticker_opt published_utc limit sort' (Some [])
     = get_ticker_news_request ticker_opt published_utc limit sort' None"
  by (simp add: get_ticker_news_request_def falsy_simps)

lemma get_dividends_falsy:
  "get_dividends_request (Some []) ex_dividend_date frequency dividend_type limit
     = get_dividends_request None ex_dividend_date frequency dividend_type limit \<and>
   get_dividends_request ticker_opt (Some []) frequency dividend_type limit
     = get_dividends_request ticker_opt None frequency dividend_type limit \<and>
   get_dividends_request ticker_opt ex_dividend_date (Some 0) dividend_type limit
     = get_dividends_request ticker_opt ex_dividend_date None dividend_type limit \<and>
   get_dividends_request ticker_opt ex_dividend_date frequency (Some []) limit
     = get_dividends_request ticker_opt ex_dividend_date frequency None limit \<and>
   get_dividends_request ticker_opt ex_dividend_date frequency dividend_type (Some 0)
     = get_dividends_request ticker_opt ex_dividend_date frequency dividend_type None"
  by (simp add: get_dividends_request_def falsy_simps)

lemma get_splits_falsy:
  "get_splits_request (Some []) execution_date reverse_split limit
     = get_splits_request None execution_date reverse_split limit \<and>
   get_splits_request ticker_opt (Some []) reverse_split limit
     = get_splits_request ticker_opt None reverse_split limit \<and>
   get_splits_request ticker_opt execution_date reverse_split (Some 0)
     = get_splits_request ticker_opt execution_date reverse_split None"
  by (simp add: get_splits_request_def falsy_simps)

lemma get_treasury_yields_falsy:
  "get_treasury_yields_request (Some []) limit sort' order
     = get_treasury_yields_request None limit sort' order \<and>
   get_treasury_yields_request date (Some 0) sort' order
     = get_treasury_yields_request date None sort' order \<and>
   get_treasury_yields_request date limit (Some []) order
     = get_treasury_yields_request date limit None order \<and>
   get_treasury_yields_request date limit sort' (Some [])
     = get_treasury_yields_request date limit sort' None"
  by (simp add: get_treasury_yields_request_def falsy_simps)

lemma get_intraday_aggregates_falsy:
  "get_intraday_aggregates_request ticker multiplier timespan from_date to_date adjusted
     (Some []) limit include_otc
     = get_intraday_aggregates_request ticker multiplier timespan from_date to_date adjusted
         None limit include_otc \<and>
   get_intraday_aggregates_request ticker multiplier timespan from_date to_date adjusted
     sort' (Some 0) include_otc
     = get_intraday_aggregates_request ticker multiplier timespan from_date to_date adjusted
         sort' None include_otc \<and>
   get_intraday_aggregates_request ticker multiplier timespan from_date to_date adjusted
     sort' limit (Some False)
     = get_intraday_aggregates_request ticker multiplier timespan from_date to_date adjusted
         sort' limit None"
  by (simp add: get_intraday_aggregates_request_def falsy_simps)

lemma get_earnings_falsy:
  "get_earnings_request (Some []) date limit sort' order
     = get_earnings_request None date limit sort' order \<and>
   get_earnings_request ticker_opt (Some []) limit sort' order
     = get_earnings_request ticker_opt None limit sort' order \<and>
   get_earnings_request ticker_opt date (Some 0) sort' order
     = get_earnings_request ticker_opt date None sort' order \<and>
   get_earnings_request ticker_opt date limit (Some []) order
     = get_earnings_request ticker_opt date limit None order \<and>
   get_earnings_request ticker_opt date limit sort' (Some [])
     = get_earnings_request ticker_opt date limit sort' None"
  by (simp add: get_earnings_request_def falsy_simps)

lemma get_analyst_ratings_falsy:
  "get_analyst_ratings_request (Some []) date limit sort' order
     = get_analyst_ratings_request None date limit sort' order \<and>
   get_analyst_ratings_request ticker_opt (Some []) limit sort' order
     = get_analyst_ratings_request ticker_opt None limit sort' order \<and>
   get_analyst_ratings_request ticker_opt date (Some 0) sort' order
     = get_analyst_ratings_request ticker_opt date None sort' order \<and>
   get_analyst_ratings_request ticker_opt date limit (Some []) order
     = get_analyst_ratings_request ticker_opt date limit None order \<and>
   get_analyst_ratings_request ticker_opt date limit sort' (Some [])
     = get_analyst_ratings_request ticker_opt date limit sort' None"
  by (simp add: get_analyst_ratings_request_def falsy_simps)

lemma get_short_interest_falsy:
  "get_short_interest_request (Some []) settlement_date limit sort' order
     = get_short_interest_request None settlement_date limit sort' order \<and>
   get_short_interest_request ticker_opt (Some []) limit sort' order
     = get_short_interest_request ticker_opt None limit sort' order \<and>
   get_short_interest_request ticker_opt settlement_date (Some 0) sort' order
     = get_short_interest_request ticker_opt settlement_date None sort' order \<and>
   get_short_interest_request ticker_opt settlement_date limit (Some []) order
     = get_short_interest_request ticker_opt settlement_date limit None order \<and>
   get_short_interest_request ticker_opt settlement_date limit sort' (Some [])
     = get_short_interest_request ticker_opt settlement_date limit sort' None"
  by (simp add: get_short_interest_request_def falsy_simps)

lemma get_options_contracts_falsy:
  "get_options_contracts_request underlying_asset (Some []) strike_price expiration_date
     limit
     = get_options_contracts_request underlying_asset None strike_price expiration_date
         limit \<and>
   get_options_contracts_request underlying_asset contract_type (Some ''0.0'')
     expiration_date limit
     = get_options_contracts_request underlying_asset contract_type None expiration_date
         limit \<and>
   get_options_contracts_request underlying_asset contract_type (Some ''-0.0'')
     expiration_date limit
     = get_options_contracts_request underlying_asset contract_type None expiration_date
         limit \<and>
   get_options_contracts_request underlying_asset contract_type strike_price (Some []) limit
     = get_options_contracts_request underlying_asset contract_type strike_price None limit \<and>
   get_options_contracts_request underlying_asset contract_type strike_price expiration_date
     (Some 0)
     = get_options_contracts_request underlying_asset contract_type strike_price
         expiration_date None"
  by (simp add: get_options_contracts_request_def falsy_simps)

lemma get_options_snapshot_falsy:
  "get_options_snapshot_request underlying_asset (Some ''0.0'') expiration_date
     contract_type
     = get_options_snapshot_request underlying_asset None expiration_date contract_type \<and>
   get_options_snapshot_request underlying_asset (Some ''-0.0'') expiration_date
     contract_type
     = get_options_snapshot_request underlying_asset None expiration_date contract_type \<and>
   get_options_snapshot_request underlying_asset strike_price (Some []) contract_type
     = get_options_snapshot_request underlying_asset strike_price None contract_type \<and>
   get_options_snapshot_request underlying_asset strike_price expiration_date (Some [])
     = get_options_snapshot_request underlying_asset strike_price expiration_date None"
  by (simp add: get_options_snapshot_request_def falsy_simps)

lemma get_balance_sheet_falsy:
  "get_balance_sheet_request ticker timeframe (Some 0) order
     = get_balance_sheet_request ticker timeframe None order"
  by (simp add: get_balance_sheet_request_def falsy_simps)

lemma get_cash_flow_falsy:
  "get_cash_flow_request ticker timeframe (Some 0) order
     = get_cash_flow_request ticker timeframe None order"
  by (simp add: get_cash_flow_request_def falsy_simps)

lemma get_market_gainers_losers_falsy:
  "get_market_gainers_losers_request direction (Some False) limit
     = get_market_gainers_losers_request direction None limit \<and>
   get_market_gainers_losers_request direction include_otc (Some 0)
     = get_market_gainers_losers_request direction include_otc None"
  by (simp add: get_market_gainers_losers_request_def falsy_simps)

lemma get_inflation_data_falsy:
  "get_inflation_data_request (Some []) limit sort'
     = get_inflation_data_request None limit sort' \<and>
   get_inflation_data_request date (Some 0) sort'
     = get_inflation_data_request date None sort' \<and>
   get_inflation_data_request date limit (Some [])
     = get_inflation_data_request date limit None"
  by (simp add: get_inflation_data_request_def falsy_simps)

lemma is_not_None_false:
  "query_get (get_aggregates_request ticker multiplier timespan from_date to_date (Some
     False) sort' limit) ''adjusted'' = Some (PyStr ''false'') \<and>
   query_get (get_previous_close_request ticker (Some False)) ''adjusted'' = Some (PyStr
     ''false'') \<and>
   query_get (search_tickers_request search type' market (Some False) limit sort' order)
     ''active'' = Some (PyStr ''false'') \<and>
   query_get (get_splits_request ticker_opt execution_date (Some False) limit)
     ''reverse_split'' = Some (PyStr ''false'') \<and>
   query_get (get_intraday_aggregates_request ticker multiplier timespan from_date to_date
     (Some False) sort' limit include_otc) ''adjusted'' = Some (PyStr ''false'')"
  by (simp add: get_aggregates_request_def get_previous_close_request_def search_tickers_request_def
        get_splits_request_def get_intraday_aggregates_request_def query_get_def Let_def dict_get_step
        lower_False dict_get_def)

text \<open>
  Claim C9. For every parameter that a builder tests by truthiness, the falsy
  value of its type (the empty string, \<open>0\<close>, \<open>0.0\<close> and \<open>-0.0\<close>,
  \<^verbatim>\<open>False\<close> for \<^verbatim>\<open>include_otc\<close>) builds the same request as leaving
  the argument out. For \<^verbatim>\<open>adjusted\<close>, \<^verbatim>\<open>active\<close> and
  \<^verbatim>\<open>reverse_split\<close>, tested with \<^verbatim>\<open>is not None\<close>, a supplied
  \<^verbatim>\<open>False\<close> is in the query as the string \<^verbatim>\<open>"false"\<close>.
\<close>

theorem falsy_argument_same_as_omitted:
  "get_aggregates_request ticker multiplier timespan from_date to_date adjusted (Some [])
     limit
     = get_aggregates_request ticker multiplier timespan from_date to_date adjusted None
         limit \<and>
   get_aggregates_request ticker multiplier timespan from_date to_date adjusted sort' (Some
     0)
     = get_aggregates_request ticker multiplier timespan from_date to_date adjusted sort'
         None \<and>
   search_tickers_request (Some []) type' market active limit sort' order
     = search_tickers_request None type' market active limit sort' order \<and>
   search_tickers_request search (Some []) market active limit sort' order
     = search_tickers_request search None market active limit sort' order \<and>
   search_tickers_request search type' (Some []) active limit sort' order
     = search_tickers_request search type' None active limit sort' order \<and>
   search_tickers_request search type' market active (Some 0) sort' order
     = search_tickers_request search type' market active None sort' order \<and>
   search_tickers_request search type' market active limit (Some []) order
     = search_tickers_request search type' market active limit None order \<and>
   search_tickers_request search type' market active limit sort' (Some [])
     = search_tickers_request search type' market active limit sort' None \<and>
   get_ticker_news_request (Some []) published_utc limit sort' order
     = get_ticker_news_request None published_utc limit sort' order \<and>
   get_ticker_news_request ticker_opt (Some []) limit sort' order
     = get_ticker_news_request ticker_opt None limit sort' order \<and>
   get_ticker_news_request ticker_opt published_utc (Some 0) sort' order
     = get_ticker_news_request ticker_opt published_utc None sort' order \<and>
   get_ticker_news_request ticker_opt published_utc limit (Some []) order
     = get_ticker_news_request ticker_opt published_utc limit None order \<and>
   get_ticker_news_request ticker_opt published_utc limit sort' (Some [])
     = get_ticker_news_request ticker_opt published_utc limit sort' None \<and>
   get_dividends_request (Some []) ex_dividend_date frequency dividend_type limit
     = get_dividends_request None ex_dividend_date frequency dividend_type limit \<and>
   get_dividends_request ticker_opt (Some []) frequency dividend_type limit
     = get_dividends_request ticker_opt None frequency dividend_type limit \<and>
   get_dividends_request ticker_opt ex_dividend_date (Some 0) dividend_type limit
     = get_dividends_request ticker_opt ex_dividend_date None dividend_type limit \<and>
   get_dividends_request ticker_opt ex_dividend_date frequency (Some []) limit
     = get_dividends_request ticker_opt ex_dividend_date frequency None limit \<and>
   get_dividends_request ticker_opt ex_dividend_date frequency dividend_type (Some 0)
     = get_dividends_request ticker_opt ex_dividend_date frequency dividend_type None \<and>
   get_splits_request (Some []) execution_date reverse_split limit
     = get_splits_request None execution_date reverse_split limit \<and>
   get_splits_request ticker_opt (Some []) reverse_split limit
     = get_splits_request ticker_opt None reverse_split limit \<and>
   get_splits_request ticker_opt execution_date reverse_split (Some 0)
     = get_splits_request ticker_opt execution_date reverse_split None \<and>
   get_treasury_yields_request (Some []) limit sort' order
     = get_treasury_yields_request None limit sort' order \<and>
   get_treasury_yields_request date (Some 0) sort' order
     = get_treasury_yields_request date None sort' order \<and>
   get_treasury_yields_request date limit (Some []) order
     = get_treasury_yields_request date limit None order \<and>
   get_treasury_yields_request date limit sort' (Some [])
     = get_treasury_yields_request date limit sort' None \<and>
   get_intraday_aggregates_request ticker multiplier timespan from_date to_date adjusted
     (Some []) limit include_otc
     = get_intraday_aggregates_request ticker multiplier timespan from_date to_date adjusted
         None limit include_otc \<and>
   get_intraday_aggregates_request ticker multiplier timespan from_date to_date adjusted
     sort' (Some 0) include_otc
     = get_intraday_aggregates_request ticker multiplier timespan from_date to_date adjusted
         sort' None include_otc \<and>
   get_intraday_aggregates_request ticker multiplier timespan from_date to_date adjusted
     sort' limit (Some False)
     = get_intraday_aggregates_request ticker multiplier timespan from_date to_date adjusted
         sort' limit None \<and>
   get_earnings_request (Some []) date limit sort' order
     = get_earnings_request None date limit sort' order \<and>
   get_earnings_request ticker_opt (Some []) limit sort' order
     = get_earnings_request ticker_opt None limit sort' order \<and>
   get_earnings_request ticker_opt date (Some 0) sort' order
     = get_earnings_request ticker_opt date None sort' order \<and>
   get_earnings_request ticker_opt date limit (Some []) order
     = get_earnings_request ticker_opt date limit None order \<and>
   get_earnings_request ticker_opt date limit sort' (Some [])
     = get_earnings_request ticker_opt date limit sort' None \<and>
   get_analyst_ratings_request (Some []) date limit sort' order
     = get_analyst_ratings_request None date limit sort' order \<and>
   get_analyst_ratings_request ticker_opt (Some []) limit sort' order
     = get_analyst_ratings_request ticker_opt None limit sort' order \<and>
   get_analyst_ratings_request ticker_opt date (Some 0) sort' order
     = get_analyst_ratings_request ticker_opt date None sort' order \<and>
   get_analyst_ratings_request ticker_opt date limit (Some []) order
     = get_analyst_ratings_request ticker_opt date limit None order \<and>
   get_analyst_ratings_request ticker_opt date limit sort' (Some [])
     = get_analyst_ratings_request ticker_opt date limit sort' None \<and>
   get_short_interest_request (Some []) settlement_date limit sort' order
     = get_short_interest_request None settlement_date limit sort' order \<and>
   get_short_interest_request ticker_opt (Some []) limit sort' order
     = get_short_interest_request ticker_opt None limit sort' order \<and>
   get_short_interest_request ticker_opt settlement_date (Some 0) sort' order
     = get_short_interest_request ticker_opt settlement_date None sort' order \<and>
   get_short_interest_request ticker_opt settlement_date limit (Some []) order
     = get_short_interest_request ticker_opt settlement_date limit None order \<and>
   get_short_interest_request ticker_opt settlement_date limit sort' (Some [])
     = get_short_interest_request ticker_opt settlement_date limit sort' None \<and>
   get_options_contracts_request underlying_asset (Some []) strike_price expiration_date
     limit
     = get_options_contracts_request underlying_asset None strike_price expiration_date
         limit \<and>
   get_options_contracts_request underlying_asset contract_type (Some ''0.0'')
     expiration_date limit
     = get_options_contracts_request underlying_asset contract_type None expiration_date
         limit \<and>
   get_options_contracts_request underlying_asset contract_type (Some ''-0.0'')
     expiration_date limit
     = get_options_contracts_request underlying_asset contract_type None expiration_date
         limit \<and>
   get_options_contracts_request underlying_asset contract_type strike_price (Some []) limit
     = get_options_contracts_request underlying_asset contract_type strike_price None limit \<and>
   get_options_contracts_request underlying_asset contract_type strike_price expiration_date
     (Some 0)
     = get_options_contracts_request underlying_asset contract_type strike_price
         expiration_date None \<and>
   get_options_snapshot_request underlying_asset (Some ''0.0'') expiration_date
     contract_type
     = get_options_snapshot_request underlying_asset None expiration_date contract_type \<and>
   get_options_snapshot_request underlying_asset (Some ''-0.0'') expiration_date
     contract_type
     = get_options_snapshot_request underlying_asset None expiration_date contract_type \<and>
   get_options_snapshot_request underlying_asset strike_price (Some []) contract_type
     = get_options_snapshot_request underlying_asset strike_price None contract_type \<and>
   get_options_snapshot_request underlying_asset strike_price expiration_date (Some [])
     = get_options_snapshot_request underlying_asset strike_price expiration_date None \<and>
   get_balance_sheet_request ticker timeframe (Some 0) order
     = get_balance_sheet_request ticker timeframe None order \<and>
   get_cash_flow_request ticker timeframe (Some 0) order
     = get_cash_flow_request ticker timeframe None order \<and>
   get_market_gainers_losers_request direction (Some False) limit
     = get_market_gainers_losers_request direction None limit \<and>
   get_market_gainers_losers_request direction include_otc (Some 0)
     = get_market_gainers_losers_request direction include_otc None \<and>
   get_inflation_data_request (Some []) limit sort'
     = get_inflation_data_request None limit sort' \<and>
   get_inflation_data_request date (Some 0) sort'
     = get_inflation_data_request date None sort' \<and>
   get_inflation_data_request date limit (Some [])
     = get_inflation_data_request date limit None \<and>
   query_get (get_aggregates_request ticker multiplier timespan from_date to_date (Some
     False) sort' limit) ''adjusted'' = Some (PyStr ''false'') \<and>
   query_get (get_previous_close_request ticker (Some False)) ''adjusted'' = Some (PyStr
     ''false'') \<and>
   query_get (search_tickers_request search type' market (Some False) limit sort' order)
     ''active'' = Some (PyStr ''false'') \<and>
   query_get (get_splits_request ticker_opt execution_date (Some False) limit)
     ''reverse_split'' = Some (PyStr ''false'') \<and>
   query_get (get_intraday_aggregates_request ticker multiplier timespan from_date to_date
     (Some False) sort' limit include_otc) ''adjusted'' = Some (PyStr ''false'')"
  by (simp only: get_aggregates_falsy search_tickers_falsy get_ticker_news_falsy get_dividends_falsy get_splits_falsy get_treasury_yields_falsy get_intraday_aggregates_falsy get_earnings_falsy get_analyst_ratings_falsy get_short_interest_falsy get_options_contracts_falsy get_options_snapshot_falsy get_balance_sheet_falsy get_cash_flow_falsy get_market_gainers_losers_falsy get_inflation_data_falsy is_not_None_false simp_thms)

subsection \<open>Dates in the path\<close>

lemma str_digits_1: "0 \<le> n \<Longrightarrow> n < 10 \<Longrightarrow> str_digits n = [char_of (48 + n)]"
  by (subst str_digits.simps) (simp add: digit_char_def)

lemma str_digits_2:
  "10 \<le> n \<Longrightarrow> n < 100 \<Longrightarrow> str_digits n = [char_of (48 + n div 10), char_of (48 + n mod 10)]"
  by (subst str_digits.simps) (simp add: digit_char_def str_digits_1)

lemma str_digits_3:
  assumes "100 \<le> n" and "n < 1000"
  shows "str_digits n =
           [char_of (48 + n div 100), char_of (48 + n div 10 mod 10), char_of (48 + n mod 10)]"
proof -
  have "10 \<le> n div 10" and "n div 10 < 100" using assms by linarith+
  moreover have "n div 10 div 10 = n div 100" by (simp add: zdiv_zmult2_eq)
  ultimately show ?thesis
    using assms by (subst str_digits.simps) (simp add: digit_char_def str_digits_2)
qed

lemma str_digits_4:
  assumes "1000 \<le> n" and "n < 10000"
  shows "str_digits n =
           [char_of (48 + n div 1000), char_of (48 + n div 100 mod 10),
            char_of (48 + n div 10 mod 10), char_of (48 + n mod 10)]"
proof -
  have "100 \<le> n div 10" and "n div 10 < 1000" using assms by linarith+
  moreover have "n div 10 div 100 = n div 1000" "n div 10 div 10 = n div 100"
    by (simp_all add: zdiv_zmult2_eq)
  ultimately show ?thesis
    using assms by (subst str_digits.simps) (simp add: digit_char_def str_digits_3)
qed

lemma char_of_48: "char_of (48 :: int) = CHR ''0''"
  by (simp add: char_of_def)

lemma zfill_2:
  assumes "0 \<le> n" and "n < 100"
  shows "zfill 2 (str_int n) = [char_of (48 + n div 10), char_of (48 + n mod 10)]"
proof (cases "n < 10")
  case True
  with assms show ?thesis by (simp add: zfill_def str_int_def str_digits_1 char_of_48)
next
  case False
  with assms show ?thesis by (simp add: zfill_def str_int_def str_digits_2)
qed

lemma strftime_ymd_format:
  assumes "1000 \<le> y" "y \<le> 9999" "1 \<le> m" "m \<le> 12" "1 \<le> d" "d \<le> 31"
  shows "strftime_ymd y m d =
           [char_of (48 + y div 1000), char_of (48 + y div 100 mod 10),
            char_of (48 + y div 10 mod 10), char_of (48 + y mod 10), CHR ''-'',
            char_of (48 + m div 10), char_of (48 + m mod 10), CHR ''-'',
            char_of (48 + d div 10), char_of (48 + d mod 10)]"
proof -
  have "zfill 4 (str_int y) =
          [char_of (48 + y div 1000), char_of (48 + y div 100 mod 10),
           char_of (48 + y div 10 mod 10), char_of (48 + y mod 10)]"
    using assms(1,2) by (simp add: zfill_def str_int_def str_digits_4)
  moreover have "zfill 2 (str_int m) = [char_of (48 + m div 10), char_of (48 + m mod 10)]"
    using assms(3,4) by (simp add: zfill_2)
  moreover have "zfill 2 (str_int d) = [char_of (48 + d div 10), char_of (48 + d mod 10)]"
    using assms(5,6) by (simp add: zfill_2)
  ultimately show ?thesis by (simp add: strftime_ymd_def)
qed

lemma strftime_ymd_samples:
  "strftime_ymd 2024 3 15 = ''2024-03-15''"
  "strftime_ymd 1999 12 5 = ''1999-12-05''"
  "str_int 1704067200 = ''1704067200''"
  by code_simp+

text \<open>
  Claim C4, as amended. The two tools with date arguments,
  \<^verbatim>\<open>get_aggregates\<close> and \<^verbatim>\<open>get_intraday_aggregates\<close>, put two string
  dates into the path as they are, after the ticker in upper case, the
  multiplier and the timespan. For \<^verbatim>\<open>from_date\<close> and for \<^verbatim>\<open>to_date\<close>,
  each builds the same request from a \<^verbatim>\<open>date\<close> or \<^verbatim>\<open>datetime\<close>
  object as from the string that \<^verbatim>\<open>strftime("%Y-%m-%d")\<close> gives for it,
  and the same request from an integer as from the string of its decimal
  digits: an integer is not normalized. The query does not depend on the
  dates. For a year from 1000 to 9999, a month from 1 to 12 and a day from 1
  to 31 the string of a date object is the four digits of the year, a hyphen,
  the two digits of the month, a hyphen and the two digits of the day.
\<close>

theorem date_objects_normalized:
  "fst (get_aggregates_request ticker multiplier timespan (DateStr s) (DateStr s') adjusted
       sort' limit) =
     ''/v2/aggs/ticker/'' @ py_upper ticker @ ''/range/'' @ str_int multiplier @ ''/'' @ timespan
       @ ''/'' @ s @ ''/'' @ s' \<and>
   fst (get_intraday_aggregates_request ticker multiplier timespan (DateStr s) (DateStr s')
       adjusted sort' limit include_otc) =
     ''/v2/aggs/ticker/'' @ py_upper ticker @ ''/range/'' @ str_int multiplier @ ''/'' @ timespan
       @ ''/'' @ s @ ''/'' @ s' \<and>
   get_aggregates_request ticker multiplier timespan (DateObj y m d) to_date adjusted
       sort' limit
     = get_aggregates_request ticker multiplier timespan (DateStr (strftime_ymd y m d))
       to_date adjusted sort' limit \<and>
   get_aggregates_request ticker multiplier timespan from_date (DateObj y m d) adjusted
       sort' limit
     = get_aggregates_request ticker multiplier timespan from_date (DateStr (strftime_ymd y m
       d)) adjusted sort' limit \<and>
   get_aggregates_request ticker multiplier timespan (DatetimeObj y m d hh mm ss) to_date
       adjusted sort' limit
     = get_aggregates_request ticker multiplier timespan (DateStr (strftime_ymd y m d))
       to_date adjusted sort' limit \<and>
   get_aggregates_request ticker multiplier timespan from_date (DatetimeObj y m d hh mm
       ss) adjusted sort' limit
     = get_aggregates_request ticker multiplier timespan from_date (DateStr (strftime_ymd y m
       d)) adjusted sort' limit \<and>
   get_aggregates_request ticker multiplier timespan (DateInt n) to_date adjusted sort'
       limit
     = get_aggregates_request ticker multiplier timespan (DateStr (str_int n)) to_date
       adjusted sort' limit \<and>
   get_aggregates_request ticker multiplier timespan from_date (DateInt n) adjusted sort'
       limit
     = get_aggregates_request ticker multiplier timespan from_date (DateStr (str_int n))
       adjusted sort' limit \<and>
   get_intraday_aggregates_request ticker multiplier timespan (DateObj y m d) to_date
       adjusted sort' limit include_otc
     = get_intraday_aggregates_request ticker multiplier timespan (DateStr (strftime_ymd y m
       d)) to_date adjusted sort' limit include_otc \<and>
   get_intraday_aggregates_request ticker multiplier timespan from_date (DateObj y m d)
       adjusted sort' limit include_otc
     = get_intraday_aggregates_request ticker multiplier timespan from_date (DateStr
       (strftime_ymd y m d)) adjusted sort' limit include_otc \<and>
   get_intraday_aggregates_request ticker multiplier timespan (DatetimeObj y m d hh mm ss)
       to_date adjusted sort' limit include_otc
     = get_intraday_aggregates_request ticker multiplier timespan (DateStr (strftime_ymd y m
       d)) to_date adjusted sort' limit include_otc \<and>
   get_intraday_aggregates_request ticker multiplier timespan from_date (DatetimeObj y m d
       hh mm ss) adjusted sort' limit include_otc
     = get_intraday_aggregates_request ticker multiplier timespan from_date (DateStr
       (strftime_ymd y m d)) adjusted sort' limit include_otc \<and>
   get_intraday_aggregates_request ticker multiplier timespan (DateInt n) to_date adjusted
       sort' limit include_otc
     = get_intraday_aggregates_request ticker multiplier timespan (DateStr (str_int n))
       to_date adjusted sort' limit include_otc \<and>
   get_intraday_aggregates_request ticker multiplier timespan from_date (DateInt n)
       adjusted sort' limit include_otc
     = get_intraday_aggregates_request ticker multiplier timespan from_date (DateStr (str_int
       n)) adjusted sort' limit include_otc \<and>
   snd (get_aggregates_request ticker multiplier timespan from_date to_date adjusted sort'
       limit)
     = snd (get_aggregates_request ticker multiplier timespan from_date' to_date' adjusted sort'
       limit) \<and>
   snd (get_intraday_aggregates_request ticker multiplier timespan from_date to_date adjusted
       sort' limit include_otc)
     = snd (get_intraday_aggregates_request ticker multiplier timespan from_date' to_date' adjusted
       sort' limit include_otc) \<and>
   (1000 \<le> y \<and> y \<le> 9999 \<and> 1 \<le> m \<and> m \<le> 12 \<and> 1 \<le> d \<and> d \<le> 31 \<longrightarrow>
      strftime_ymd y m d =
        [char_of (48 + y div 1000), char_of (48 + y div 100 mod 10),
         char_of (48 + y div 10 mod 10), char_of (48 + y mod 10), CHR ''-'',
         char_of (48 + m div 10), char_of (48 + m mod 10), CHR ''-'',
         char_of (48 + d div 10), char_of (48 + d mod 10)]) \<and>
   strftime_ymd 2024 3 15 = ''2024-03-15'' \<and>
   strftime_ymd 1999 12 5 = ''1999-12-05'' \<and>
   str_int 1704067200 = ''1704067200''"
  using strftime_ymd_format [of y m d]
  by (simp add: get_aggregates_request_def get_intraday_aggregates_request_def Let_def
        strftime_ymd_samples)

text \<open>
  The theorem at the 5th of December 2024 as a \<^verbatim>\<open>datetime\<close> for
  \<^verbatim>\<open>to_date\<close> and the 15th of March 2024 as a \<^verbatim>\<open>date\<close> for
  \<^verbatim>\<open>from_date\<close>.
\<close>

theorem date_objects_normalized_witness:
  "(1000 :: int) \<le> 2024 \<and> (2024 :: int) \<le> 9999 \<and> (1 :: int) \<le> 12 \<and> (12 :: int) \<le> 12
   \<and> (1 :: int) \<le> 5 \<and> (5 :: int) \<le> 31
   \<and> strftime_ymd 2024 12 5 = ''2024-12-05''
   \<and> get_aggregates_request ''aapl'' 1 ''day'' (DateObj 2024 3 15)
        (DatetimeObj 2024 12 5 10 30 0) None None None
     = (''/v2/aggs/ticker/AAPL/range/1/day/2024-03-15/2024-12-05'', Some [])"
proof -
  have a: "strftime_ymd 2024 12 5 = ''2024-12-05''"
    using date_objects_normalized [where y = 2024 and m = 12 and d = 5]
    by (simp add: char_of_def)
  have b: "get_aggregates_request ''aapl'' 1 ''day'' (DateStr ''2024-03-15'')
             (DateStr ''2024-12-05'') None None None
           = (''/v2/aggs/ticker/AAPL/range/1/day/2024-03-15/2024-12-05'', Some [])"
    by code_simp
  have c: "get_aggregates_request ''aapl'' 1 ''day'' (DateObj 2024 3 15)
             (DatetimeObj 2024 12 5 10 30 0) None None None
           = get_aggregates_request ''aapl'' 1 ''day'' (DateStr (strftime_ymd 2024 3 15))
               (DateStr (strftime_ymd 2024 12 5)) None None None"
    by (simp add: get_aggregates_request_def)
  from a b c show ?thesis by (simp add: strftime_ymd_samples)
qed

text \<open>
  Claim C4 as stated fails: 1704067200 is the epoch time of 2024-01-01, and as
  \<^verbatim>\<open>from_date\<close> it yields a path with \<^verbatim>\<open>1704067200\<close> in it, not the
  path of the ISO string \<^verbatim>\<open>2024-01-01\<close>.
\<close>

theorem epoch_date_not_normalized:
  "strftime_date 1704067200 = ''2024-01-01''
   \<and> fst (get_aggregates_request ''AAPL'' 1 ''day'' (DateStr ''2024-01-01'') (DateStr ''2024-01-31'')
            None None None)
     = ''/v2/aggs/ticker/AAPL/range/1/day/2024-01-01/2024-01-31''
   \<and> fst (get_aggregates_request ''AAPL'' 1 ''day'' (DateInt 1704067200) (DateStr ''2024-01-31'')
            None None None)
     = ''/v2/aggs/ticker/AAPL/range/1/day/1704067200/2024-01-31''
   \<and> get_aggregates_request ''AAPL'' 1 ''day'' (DateInt 1704067200) (DateStr ''2024-01-31'')
        None None None
     \<noteq> get_aggregates_request ''AAPL'' 1 ''day'' (DateStr ''2024-01-01'') (DateStr ''2024-01-31'')
        None None None"
  by code_simp

subsection \<open>The credential\<close>

lemma params_or_empty_eq:
  "params_or_empty params = (case params of None \<Rightarrow> [] | Some d \<Rightarrow> d)"
  by (simp add: params_or_empty_def split: option.splits)

lemma query_keys_params_or_empty: "query_keys req = set (dict_keys (params_or_empty (snd req)))"
  by (simp add: query_keys_def params_or_empty_eq dict_keys_Nil split: option.splits)

lemma polygon_params_get:
  "dict_get (polygon_params params api_key) k =
     (if k = ''apiKey'' then Some (PyStr api_key) else dict_get (params_or_empty params) k)"
  by (simp add: polygon_params_def dict_get_dict_set)

lemma polygon_params_count:
  assumes "distinct (dict_keys (params_or_empty params))"
  shows "count_list (dict_keys (polygon_params params api_key)) ''apiKey'' = 1"
proof -
  have "distinct (dict_keys (polygon_params params api_key))"
    using assms by (simp add: polygon_params_def distinct_dict_set)
  moreover have "''apiKey'' \<in> set (dict_keys (polygon_params params api_key))"
    by (simp add: polygon_params_def dict_keys_dict_set)
  ultimately show ?thesis by (rule count_list_distinct)
qed

lemma polygon_params_last:
  assumes "''apiKey'' \<notin> set (dict_keys (params_or_empty params))"
  shows "polygon_params params api_key = params_or_empty params @ [(''apiKey'', PyStr api_key)]"
  using assms by (simp add: polygon_params_def dict_set_append)

lemma polygon_params_in_place:
  assumes "''apiKey'' \<in> set (dict_keys (params_or_empty params))"
  shows "dict_keys (polygon_params params api_key) = dict_keys (params_or_empty params)"
  using assms by (simp add: polygon_params_def dict_keys_dict_set_list)

lemma polygon_get_request:
  assumes "POLYGON_API_KEY e = Some api_key" and "api_key \<noteq> []"
  shows "polygon_get e path params =
           bind_exn (requests_get e (base_url @ path) (polygon_params params api_key) 20)
             (\<lambda>response. bind_exn (raise_for_status response) (\<lambda>_. json response))"
  using assms by (simp add: polygon_get_def require_polygon_api_key_def bind_exn_def Let_def)

lemma polygon_get_no_credential:
  assumes "POLYGON_API_KEY e = None \<or> POLYGON_API_KEY e = Some []"
  shows "polygon_get e path params =
           Inl (RuntimeError ''POLYGON_API_KEY environment variable is not set'')"
  using assms by (auto simp: polygon_get_def require_polygon_api_key_def bind_exn_def)

lemma polygon_get_refusing:
  assumes "api_key \<noteq> []"
  shows "polygon_get (refusing_env (Some api_key) now) path params =
           Inl (ConnectionError (py_repr
             (request_record (base_url @ path) (polygon_params params api_key) 20)))"
  using assms
  by (simp add: polygon_get_def require_polygon_api_key_def bind_exn_def Let_def refusing_env_def)

lemma forward_outbound:
  assumes "api_key \<noteq> []" and "''apiKey'' \<notin> query_keys req"
  shows "except_Exception (fetch_json (refusing_env (Some api_key) now) req) =
           Inr (''Error: '' @ py_repr (request_record (base_url @ fst req)
                  (params_or_empty (snd req) @ [(''apiKey'', PyStr api_key)]) 20))"
proof -
  from assms(2) have "polygon_params (snd req) api_key =
      params_or_empty (snd req) @ [(''apiKey'', PyStr api_key)]"
    by (simp add: polygon_params_last query_keys_params_or_empty)
  with assms(1) show ?thesis
    by (simp add: fetch_json_def polygon_get_refusing bind_exn_def except_Exception_def)
qed

lemma get_aggregates_outbound:
  assumes "api_key \<noteq> []"
  shows "get_aggregates (refusing_env (Some api_key) now) ticker multiplier timespan
           from_date to_date adjusted sort' limit =
           Inr (''Error: '' @ py_repr (request_record
             (base_url @ fst (get_aggregates_request ticker multiplier timespan from_date
                               to_date adjusted sort' limit))
             (params_or_empty (snd (get_aggregates_request ticker multiplier timespan
                                     from_date to_date adjusted sort' limit)) @ [(''apiKey'', PyStr api_key)]) 20))"
  using assms by (simp add: get_aggregates_def forward_outbound get_aggregates_keys)

lemma get_previous_close_outbound:
  assumes "api_key \<noteq> []"
  shows "get_previous_close (refusing_env (Some api_key) now) ticker adjusted =
           Inr (''Error: '' @ py_repr (request_record
             (base_url @ fst (get_previous_close_request ticker adjusted))
             (params_or_empty (snd (get_previous_close_request ticker adjusted)) @ [(''apiKey'', PyStr api_key)]) 20))"
  using assms by (simp add: get_previous_close_def forward_outbound get_previous_close_keys)

lemma get_last_trade_outbound:
  assumes "api_key \<noteq> []"
  shows "get_last_trade (refusing_env (Some api_key) now) ticker =
           Inr (''Error: '' @ py_repr (request_record
             (base_url @ fst (get_last_trade_request ticker))
             (params_or_empty (snd (get_last_trade_request ticker)) @ [(''apiKey'', PyStr api_key)]) 20))"
  using assms by (simp add: get_last_trade_def forward_outbound get_last_trade_keys)

lemma get_last_quote_outbound:
  assumes "api_key \<noteq> []"
  shows "get_last_quote (refusing_env (Some api_key) now) ticker =
           Inr (''Error: '' @ py_repr (request_record
             (base_url @ fst (get_last_quote_request ticker))
             (params_or_empty (snd (get_last_quote_request ticker)) @ [(''apiKey'', PyStr api_key)]) 20))"
  using assms by (simp add: get_last_quote_def forward_outbound get_last_quote_keys)

lemma get_snapshot_ticker_outbound:
  assumes "api_key \<noteq> []"
  shows "get_snapshot_ticker (refusing_env (Some api_key) now) market_type ticker =
           Inr (''Error: '' @ py_repr (request_record
             (base_url @ fst (get_snapshot_ticker_request market_type ticker))
             (params_or_empty (snd (get_snapshot_ticker_request market_type ticker)) @ [(''apiKey'', PyStr api_key)]) 20))"
  using assms by (simp add: get_snapshot_ticker_def forward_outbound get_snapshot_ticker_keys)

lemma get_market_status_outbound:
  assumes "api_key \<noteq> []"
  shows "get_market_status (refusing_env (Some api_key) now) =
           Inr (''Error: '' @ py_repr (request_record
             (base_url @ fst get_market_status_request)
             (params_or_empty (snd get_market_status_request) @ [(''apiKey'', PyStr api_key)]) 20))"
  using assms by (simp add: get_market_status_def forward_outbound get_market_status_keys)

lemma search_tickers_outbound:
  assumes "api_key \<noteq> []"
  shows "search_tickers (refusing_env (Some api_key) now) search type' market active limit
           sort' order =
           Inr (''Error: '' @ py_repr (request_record
             (base_url @ fst (search_tickers_request search type' market active limit sort'
                               order))
             (params_or_empty (snd (search_tickers_request search type' market active limit
                                     sort' order)) @ [(''apiKey'', PyStr api_key)]) 20))"
  using assms by (simp add: search_tickers_def forward_outbound search_tickers_keys)

lemma get_ticker_news_outbound:
  assumes "api_key \<noteq> []"
  shows "get_ticker_news (refusing_env (Some api_key) now) ticker_opt published_utc limit
           sort' order =
           Inr (''Error: '' @ py_repr (request_record
             (base_url @ fst (get_ticker_news_request ticker_opt published_utc limit sort'
                               order))
             (params_or_empty (snd (get_ticker_news_request ticker_opt published_utc limit
                                     sort' order)) @ [(''apiKey'', PyStr api_key)]) 20))"
  using assms by (simp add: get_ticker_news_def forward_outbound get_ticker_news_keys)

lemma get_dividends_outbound:
  assumes "api_key \<noteq> []"
  shows "get_dividends (refusing_env (Some api_key) now) ticker_opt ex_dividend_date
           frequency dividend_type limit =
           Inr (''Error: '' @ py_repr (request_record
             (base_url @ fst (get_dividends_request ticker_opt ex_dividend_date frequency
                               dividend_type limit))
             (params_or_empty (snd (get_dividends_request ticker_opt ex_dividend_date
                                     frequency dividend_type limit)) @ [(''apiKey'', PyStr api_key)]) 20))"
  using assms by (simp add: get_dividends_def forward_outbound get_dividends_keys)

lemma get_splits_outbound:
  assumes "api_key \<noteq> []"
  shows "get_splits (refusing_env (Some api_key) now) ticker_opt execution_date
           reverse_split limit =
           Inr (''Error: '' @ py_repr (request_record
             (base_url @ fst (get_splits_request ticker_opt execution_date reverse_split
                               limit))
             (params_or_empty (snd (get_splits_request ticker_opt execution_date
                                     reverse_split limit)) @ [(''apiKey'', PyStr api_key)]) 20))"
  using assms by (simp add: get_splits_def forward_outbound get_splits_keys)

lemma get_treasury_yields_outbound:
  assumes "api_key \<noteq> []"
  shows "get_treasury_yields (refusing_env (Some api_key) now) date limit sort' order =
           Inr (''Error: '' @ py_repr (request_record
             (base_url @ fst (get_treasury_yields_request date limit sort' order))
             (params_or_empty (snd (get_treasury_yields_request date limit sort' order)) @ [(''apiKey'', PyStr api_key)]) 20))"
  using assms by (simp add: get_treasury_yields_def forward_outbound get_treasury_yields_keys)

lemma get_earnings_outbound:
  assumes "api_key \<noteq> []"
  shows "get_earnings (refusing_env (Some api_key) now) ticker_opt date limit sort' order =
           Inr (''Error: '' @ py_repr (request_record
             (base_url @ fst (get_earnings_request ticker_opt date limit sort' order))
             (params_or_empty (snd (get_earnings_request ticker_opt date limit sort' order)) @ [(''apiKey'', PyStr api_key)]) 20))"
  using assms by (simp add: get_earnings_def forward_outbound get_earnings_keys)

lemma get_analyst_ratings_outbound:
  assumes "api_key \<noteq> []"
  shows "get_analyst_ratings (refusing_env (Some api_key) now) ticker_opt date limit sort'
           order =
           Inr (''Error: '' @ py_repr (request_record
             (base_url @ fst (get_analyst_ratings_request ticker_opt date limit sort' order))
             (params_or_empty (snd (get_analyst_ratings_request ticker_opt date limit sort'
                                     order)) @ [(''apiKey'', PyStr api_key)]) 20))"
  using assms by (simp add: get_analyst_ratings_def forward_outbound get_analyst_ratings_keys)

lemma get_short_interest_outbound:
  assumes "api_key \<noteq> []"
  shows "get_short_interest (refusing_env (Some api_key) now) ticker_opt settlement_date
           limit sort' order =
           Inr (''Error: '' @ py_repr (request_record
             (base_url @ fst (get_short_interest_request ticker_opt settlement_date limit
                               sort' order))
             (params_or_empty (snd (get_short_interest_request ticker_opt settlement_date
                                     limit sort' order)) @ [(''apiKey'', PyStr api_key)]) 20))"
  using assms by (simp add: get_short_interest_def forward_outbound get_short_interest_keys)

lemma get_options_contracts_outbound:
  assumes "api_key \<noteq> []"
  shows "get_options_contracts (refusing_env (Some api_key) now) underlying_asset
           contract_type strike_price expiration_date limit =
           Inr (''Error: '' @ py_repr (request_record
             (base_url @ fst (get_options_contracts_request underlying_asset contract_type
                               strike_price expiration_date limit))
             (params_or_empty (snd (get_options_contracts_request underlying_asset
                                     contract_type strike_price expiration_date limit)) @ [(''apiKey'', PyStr api_key)]) 20))"
  using assms by (simp add: get_options_contracts_def forward_outbound get_options_contracts_keys)

lemma get_options_snapshot_outbound:
  assumes "api_key \<noteq> []"
  shows "get_options_snapshot (refusing_env (Some api_key) now) underlying_asset
           strike_price expiration_date contract_type =
           Inr (''Error: '' @ py_repr (request_record
             (base_url @ fst (get_options_snapshot_request underlying_asset strike_price
                               expiration_date contract_type))
             (params_or_empty (snd (get_options_snapshot_request underlying_asset
                                     strike_price expiration_date contract_type)) @ [(''apiKey'', PyStr api_key)]) 20))"
  using assms by (simp add: get_options_snapshot_def forward_outbound get_options_snapshot_keys)

lemma get_balance_sheet_outbound:
  assumes "api_key \<noteq> []"
  shows "get_balance_sheet (refusing_env (Some api_key) now) ticker timeframe limit order =
           Inr (''Error: '' @ py_repr (request_record
             (base_url @ fst (get_balance_sheet_request ticker timeframe limit order))
             (params_or_empty (snd (get_balance_sheet_request ticker timeframe limit order)) @ [(''apiKey'', PyStr api_key)]) 20))"
  using assms by (simp add: get_balance_sheet_def forward_outbound get_balance_sheet_keys)

lemma get_cash_flow_outbound:
  assumes "api_key \<noteq> []"
  shows "get_cash_flow (refusing_env (Some api_key) now) ticker timeframe limit order =
           Inr (''Error: '' @ py_repr (request_record
             (base_url @ fst (get_cash_flow_request ticker timeframe limit order))
             (params_or_empty (snd (get_cash_flow_request ticker timeframe limit order)) @ [(''apiKey'', PyStr api_key)]) 20))"
  using assms by (simp add: get_cash_flow_def forward_outbound get_cash_flow_keys)

lemma get_market_gainers_losers_outbound:
  assumes "api_key \<noteq> []"
  shows "get_market_gainers_losers (refusing_env (Some api_key) now) direction include_otc
           limit =
           Inr (''Error: '' @ py_repr (request_record
             (base_url @ fst (get_market_gainers_losers_request direction include_otc limit))
             (params_or_empty (snd (get_market_gainers_losers_request direction include_otc
                                     limit)) @ [(''apiKey'', PyStr api_key)]) 20))"
  using assms by (simp add: get_market_gainers_losers_def forward_outbound get_market_gainers_losers_keys)

lemma get_market_holidays_outbound:
  assumes "api_key \<noteq> []"
  shows "get_market_holidays (refusing_env (Some api_key) now) =
           Inr (''Error: '' @ py_repr (request_record
             (base_url @ fst get_market_holidays_request)
             (params_or_empty (snd get_market_holidays_request) @ [(''apiKey'', PyStr api_key)]) 20))"
  using assms by (simp add: get_market_holidays_def forward_outbound get_market_holidays_keys)

lemma get_inflation_data_outbound:
  assumes "api_key \<noteq> []"
  shows "get_inflation_data (refusing_env (Some api_key) now) date limit sort' =
           Inr (''Error: '' @ py_repr (request_record
             (base_url @ fst (get_inflation_data_request date limit sort'))
             (params_or_empty (snd (get_inflation_data_request date limit sort')) @ [(''apiKey'', PyStr api_key)]) 20))"
  using assms by (simp add: get_inflation_data_def forward_outbound get_inflation_data_keys)

lemma get_intraday_aggregates_outbound:
  assumes "api_key \<noteq> []"
  shows "get_intraday_aggregates (refusing_env (Some api_key) now) ticker multiplier
           timespan from_date to_date adjusted sort' limit include_otc =
           Inr (''Error: '' @ py_repr (request_record
             (base_url @ fst (get_intraday_aggregates_request ticker multiplier timespan
                               from_date to_date adjusted sort' limit include_otc))
             (params_or_empty (snd (get_intraday_aggregates_request ticker multiplier
                                     timespan from_date to_date adjusted sort' limit
                                     include_otc)) @ [(''apiKey'', PyStr api_key)]) 20))"
  using assms
  by (simp add: get_intraday_aggregates_def polygon_get_refusing polygon_params_last
        query_keys_params_or_empty [symmetric] get_intraday_aggregates_keys bind_exn_def
        except_Exception_def Let_def)

lemma get_ticker_exchange_info_outbound:
  assumes "api_key \<noteq> []"
  shows "get_ticker_exchange_info (refusing_env (Some api_key) now) ticker =
           Inr (''Error: '' @ py_repr (request_record
             (base_url @ ''/v3/reference/tickers/'' @ py_upper ticker)
             [(''apiKey'', PyStr api_key)] 20))"
  using assms
  by (simp add: get_ticker_exchange_info_def polygon_get_refusing polygon_params_def
        params_or_empty_def bind_exn_def except_Exception_def Let_def)

lemma stock_info_outbound:
  assumes "api_key \<noteq> []"
  shows "stock_info (refusing_env (Some api_key) now) stock_ticker =
           Inl (ConnectionError (py_repr (request_record
             (base_url @ ''/v3/reference/tickers/'' @ py_upper stock_ticker)
             [(''apiKey'', PyStr api_key)] 20)))"
  using assms
  by (simp add: stock_info_def polygon_get_refusing polygon_params_def params_or_empty_def
        bind_exn_def Let_def)

lemma income_statement_outbound:
  assumes "api_key \<noteq> []"
  shows "income_statement (refusing_env (Some api_key) now) stock_ticker =
           Inl (ConnectionError (py_repr (request_record
             (base_url @ ''/vX/reference/financials'')
             (income_statement_params stock_ticker @ [(''apiKey'', PyStr api_key)]) 20)))"
proof -
  have "polygon_params (Some (income_statement_params stock_ticker)) api_key =
          income_statement_params stock_ticker @ [(''apiKey'', PyStr api_key)]"
    by (simp add: polygon_params_def params_or_empty_def income_statement_params_def)
  with assms show ?thesis
    by (simp add: income_statement_def polygon_get_refusing bind_exn_def Let_def)
qed

lemma stock_price_outbound:
  assumes "api_key \<noteq> []"
    and "datetime_min + 30 * 86400 \<le> now" and "now \<le> datetime_max"
  shows "stock_price (refusing_env (Some api_key) now) stock_ticker =
           Inl (ConnectionError (py_repr (request_record
             (base_url @ ''/v2/aggs/ticker/'' @ py_upper stock_ticker @ ''/range/1/day/''
                @ strftime_date (now - 30 * 86400) @ ''/'' @ strftime_date now)
             (stock_price_params @ [(''apiKey'', PyStr api_key)]) 20)))"
proof -
  have "polygon_params (Some stock_price_params) api_key =
          stock_price_params @ [(''apiKey'', PyStr api_key)]"
    by (simp add: polygon_params_def params_or_empty_def stock_price_params_def)
  moreover have "utc_now (refusing_env (Some api_key) now) = now"
    by (simp add: refusing_env_def)
  ultimately show ?thesis
    using assms
    by (simp add: stock_price_def stock_price_path_def datetime_add_def iso_date_def
          polygon_get_refusing bind_exn_def Let_def)
qed

text \<open>
  Claim C7, as amended. With the credential \<open>api_key\<close> in the environment,
  \<^verbatim>\<open>_polygon_get\<close> hands to \<^verbatim>\<open>requests.get\<close> the base URL followed by
  the path, the timeout 20 and the query \<open>polygon_params params api_key\<close>;
  without the credential it raises and sends nothing. In that query the key
  \<^verbatim>\<open>apiKey\<close> is bound to the credential and every other key keeps the
  value the builder gave it; the key occurs once (the keys of a dictionary
  are distinct). When the mapping of the builder has no \<^verbatim>\<open>apiKey\<close> entry,
  the credential is appended after all its entries; this is so for every
  builder of the module, and the request that each of the twenty-six upstream
  tools sends, read off an upstream that refuses it, is the query of its
  builder followed by the credential. When the mapping already has the key,
  the entry keeps its place and only takes the credential as its value.
\<close>

theorem credential_in_sent_params:
  "(POLYGON_API_KEY e = Some api_key \<and> api_key \<noteq> [] \<longrightarrow>
      polygon_get e path params =
        bind_exn (requests_get e (base_url @ path) (polygon_params params api_key) 20)
          (\<lambda>response. bind_exn (raise_for_status response) (\<lambda>_. json response)))
   \<and> (POLYGON_API_KEY e = None \<or> POLYGON_API_KEY e = Some [] \<longrightarrow>
      polygon_get e path params =
        Inl (RuntimeError ''POLYGON_API_KEY environment variable is not set''))
   \<and> dict_get (polygon_params params api_key) ''apiKey'' = Some (PyStr api_key)
   \<and> (k \<noteq> ''apiKey'' \<longrightarrow>
        dict_get (polygon_params params api_key) k = dict_get (params_or_empty params) k)
   \<and> (distinct (dict_keys (params_or_empty params)) \<longrightarrow>
        count_list (dict_keys (polygon_params params api_key)) ''apiKey'' = 1)
   \<and> (''apiKey'' \<notin> set (dict_keys (params_or_empty params)) \<longrightarrow>
        polygon_params params api_key = params_or_empty params @ [(''apiKey'', PyStr api_key)])
   \<and> (''apiKey'' \<in> set (dict_keys (params_or_empty params)) \<longrightarrow>
        dict_keys (polygon_params params api_key) = dict_keys (params_or_empty params))
   \<and> query_keys req = set (dict_keys (params_or_empty (snd req)))
   \<and> ''apiKey'' \<notin> query_keys (get_aggregates_request ticker multiplier timespan from_date
                             to_date adjusted sort' limit) \<and>
   ''apiKey'' \<notin> query_keys (get_previous_close_request ticker adjusted) \<and>
   ''apiKey'' \<notin> query_keys (get_last_trade_request ticker) \<and>
   ''apiKey'' \<notin> query_keys (get_last_quote_request ticker) \<and>
   ''apiKey'' \<notin> query_keys (get_snapshot_ticker_request market_type ticker) \<and>
   ''apiKey'' \<notin> query_keys (get_market_status_request) \<and>
   ''apiKey'' \<notin> query_keys (search_tickers_request search type' market active limit sort'
                             order) \<and>
   ''apiKey'' \<notin> query_keys (get_ticker_news_request ticker_opt published_utc limit sort'
                             order) \<and>
   ''apiKey'' \<notin> query_keys (get_dividends_request ticker_opt ex_dividend_date frequency
                             dividend_type limit) \<and>
   ''apiKey'' \<notin> query_keys (get_splits_request ticker_opt execution_date reverse_split limit) \<and>
   ''apiKey'' \<notin> query_keys (get_treasury_yields_request date limit sort' order) \<and>
   ''apiKey'' \<notin> query_keys (get_intraday_aggregates_request ticker multiplier timespan
                             from_date to_date adjusted sort' limit include_otc) \<and>
   ''apiKey'' \<notin> query_keys (get_earnings_request ticker_opt date limit sort' order) \<and>
   ''apiKey'' \<notin> query_keys (get_analyst_ratings_request ticker_opt date limit sort' order) \<and>
   ''apiKey'' \<notin> query_keys (get_short_interest_request ticker_opt settlement_date limit sort'
                             order) \<and>
   ''apiKey'' \<notin> query_keys (get_options_contracts_request underlying_asset contract_type
                             strike_price expiration_date limit) \<and>
   ''apiKey'' \<notin> query_keys (get_options_snapshot_request underlying_asset strike_price
                             expiration_date contract_type) \<and>
   ''apiKey'' \<notin> query_keys (get_balance_sheet_request ticker timeframe limit order) \<and>
   ''apiKey'' \<notin> query_keys (get_cash_flow_request ticker timeframe limit order) \<and>
   ''apiKey'' \<notin> query_keys (get_market_gainers_losers_request direction include_otc limit) \<and>
   ''apiKey'' \<notin> query_keys (get_market_holidays_request) \<and>
   ''apiKey'' \<notin> query_keys (get_inflation_data_request date limit sort')
   \<and> ''apiKey'' \<notin> set (dict_keys stock_price_params)
   \<and> ''apiKey'' \<notin> set (dict_keys (income_statement_params stock_ticker))
   \<and> (api_key \<noteq> [] \<longrightarrow>
      get_aggregates (refusing_env (Some api_key) now) ticker multiplier timespan from_date
        to_date adjusted sort' limit =
        Inr (''Error: '' @ py_repr (request_record
          (base_url @ fst (get_aggregates_request ticker multiplier timespan from_date
                            to_date adjusted sort' limit))
          (params_or_empty (snd (get_aggregates_request ticker multiplier timespan from_date
                                  to_date adjusted sort' limit)) @ [(''apiKey'', PyStr api_key)]) 20)) \<and>
      get_previous_close (refusing_env (Some api_key) now) ticker adjusted =
        Inr (''Error: '' @ py_repr (request_record
          (base_url @ fst (get_previous_close_request ticker adjusted))
          (params_or_empty (snd (get_previous_close_request ticker adjusted)) @ [(''apiKey'', PyStr api_key)]) 20)) \<and>
      get_last_trade (refusing_env (Some api_key) now) ticker =
        Inr (''Error: '' @ py_repr (request_record
          (base_url @ fst (get_last_trade_request ticker))
          (params_or_empty (snd (get_last_trade_request ticker)) @ [(''apiKey'', PyStr api_key)]) 20)) \<and>
      get_last_quote (refusing_env (Some api_key) now) ticker =
        Inr (''Error: '' @ py_repr (request_record
          (base_url @ fst (get_last_quote_request ticker))
          (params_or_empty (snd (get_last_quote_request ticker)) @ [(''apiKey'', PyStr api_key)]) 20)) \<and>
      get_snapshot_ticker (refusing_env (Some api_key) now) market_type ticker =
        Inr (''Error: '' @ py_repr (request_record
          (base_url @ fst (get_snapshot_ticker_request market_type ticker))
          (params_or_empty (snd (get_snapshot_ticker_request market_type ticker)) @ [(''apiKey'', PyStr api_key)]) 20)) \<and>
      get_market_status (refusing_env (Some api_key) now) =
        Inr (''Error: '' @ py_repr (request_record
          (base_url @ fst get_market_status_request)
          (params_or_empty (snd get_market_status_request) @ [(''apiKey'', PyStr api_key)]) 20)) \<and>
      search_tickers (refusing_env (Some api_key) now) search type' market active limit
        sort' order =
        Inr (''Error: '' @ py_repr (request_record
          (base_url @ fst (search_tickers_request search type' market active limit sort'
                            order))
          (params_or_empty (snd (search_tickers_request search type' market active limit
                                  sort' order)) @ [(''apiKey'', PyStr api_key)]) 20)) \<and>
      get_ticker_news (refusing_env (Some api_key) now) ticker_opt published_utc limit sort'
        order =
        Inr (''Error: '' @ py_repr (request_record
          (base_url @ fst (get_ticker_news_request ticker_opt published_utc limit sort'
                            order))
          (params_or_empty (snd (get_ticker_news_request ticker_opt published_utc limit
                                  sort' order)) @ [(''apiKey'', PyStr api_key)]) 20)) \<and>
      get_dividends (refusing_env (Some api_key) now) ticker_opt ex_dividend_date frequency
        dividend_type limit =
        Inr (''Error: '' @ py_repr (request_record
          (base_url @ fst (get_dividends_request ticker_opt ex_dividend_date frequency
                            dividend_type limit))
          (params_or_empty (snd (get_dividends_request ticker_opt ex_dividend_date frequency
                                  dividend_type limit)) @ [(''apiKey'', PyStr api_key)]) 20)) \<and>
      get_splits (refusing_env (Some api_key) now) ticker_opt execution_date reverse_split
        limit =
        Inr (''Error: '' @ py_repr (request_record
          (base_url @ fst (get_splits_request ticker_opt execution_date reverse_split limit))
          (params_or_empty (snd (get_splits_request ticker_opt execution_date reverse_split
                                  limit)) @ [(''apiKey'', PyStr api_key)]) 20)) \<and>
      get_treasury_yields (refusing_env (Some api_key) now) date limit sort' order =
        Inr (''Error: '' @ py_repr (request_record
          (base_url @ fst (get_treasury_yields_request date limit sort' order))
          (params_or_empty (snd (get_treasury_yields_request date limit sort' order)) @ [(''apiKey'', PyStr api_key)]) 20)) \<and>
      get_earnings (refusing_env (Some api_key) now) ticker_opt date limit sort' order =
        Inr (''Error: '' @ py_repr (request_record
          (base_url @ fst (get_earnings_request ticker_opt date limit sort' order))
          (params_or_empty (snd (get_earnings_request ticker_opt date limit sort' order)) @ [(''apiKey'', PyStr api_key)]) 20)) \<and>
      get_analyst_ratings (refusing_env (Some api_key) now) ticker_opt date limit sort'
        order =
        Inr (''Error: '' @ py_repr (request_record
          (base_url @ fst (get_analyst_ratings_request ticker_opt date limit sort' order))
          (params_or_empty (snd (get_analyst_ratings_request ticker_opt date limit sort'
                                  order)) @ [(''apiKey'', PyStr api_key)]) 20)) \<and>
      get_short_interest (refusing_env (Some api_key) now) ticker_opt settlement_date limit
        sort' order =
        Inr (''Error: '' @ py_repr (request_record
          (base_url @ fst (get_short_interest_request ticker_opt settlement_date limit sort'
                            order))
          (params_or_empty (snd (get_short_interest_request ticker_opt settlement_date limit
                                  sort' order)) @ [(''apiKey'', PyStr api_key)]) 20)) \<and>
      get_options_contracts (refusing_env (Some api_key) now) underlying_asset contract_type
        strike_price expiration_date limit =
        Inr (''Error: '' @ py_repr (request_record
          (base_url @ fst (get_options_contracts_request underlying_asset contract_type
                            strike_price expiration_date limit))
          (params_or_empty (snd (get_options_contracts_request underlying_asset
                                  contract_type strike_price expiration_date limit)) @ [(''apiKey'', PyStr api_key)]) 20)) \<and>
      get_options_snapshot (refusing_env (Some api_key) now) underlying_asset strike_price
        expiration_date contract_type =
        Inr (''Error: '' @ py_repr (request_record
          (base_url @ fst (get_options_snapshot_request underlying_asset strike_price
                            expiration_date contract_type))
          (params_or_empty (snd (get_options_snapshot_request underlying_asset strike_price
                                  expiration_date contract_type)) @ [(''apiKey'', PyStr api_key)]) 20)) \<and>
      get_balance_sheet (refusing_env (Some api_key) now) ticker timeframe limit order =
        Inr (''Error: '' @ py_repr (request_record
          (base_url @ fst (get_balance_sheet_request ticker timeframe limit order))
          (params_or_empty (snd (get_balance_sheet_request ticker timeframe limit order)) @ [(''apiKey'', PyStr api_key)]) 20)) \<and>
      get_cash_flow (refusing_env (Some api_key) now) ticker timeframe limit order =
        Inr (''Error: '' @ py_repr (request_record
          (base_url @ fst (get_cash_flow_request ticker timeframe limit order))
          (params_or_empty (snd (get_cash_flow_request ticker timeframe limit order)) @ [(''apiKey'', PyStr api_key)]) 20)) \<and>
      get_market_gainers_losers (refusing_env (Some api_key) now) direction include_otc
        limit =
        Inr (''Error: '' @ py_repr (request_record
          (base_url @ fst (get_market_gainers_losers_request direction include_otc limit))
          (params_or_empty (snd (get_market_gainers_losers_request direction include_otc
                                  limit)) @ [(''apiKey'', PyStr api_key)]) 20)) \<and>
      get_market_holidays (refusing_env (Some api_key) now) =
        Inr (''Error: '' @ py_repr (request_record
          (base_url @ fst get_market_holidays_request)
          (params_or_empty (snd get_market_holidays_request) @ [(''apiKey'', PyStr api_key)]) 20)) \<and>
      get_inflation_data (refusing_env (Some api_key) now) date limit sort' =
        Inr (''Error: '' @ py_repr (request_record
          (base_url @ fst (get_inflation_data_request date limit sort'))
          (params_or_empty (snd (get_inflation_data_request date limit sort')) @ [(''apiKey'', PyStr api_key)]) 20)) \<and>
      get_intraday_aggregates (refusing_env (Some api_key) now) ticker multiplier timespan
        from_date to_date adjusted sort' limit include_otc =
        Inr (''Error: '' @ py_repr (request_record
          (base_url @ fst (get_intraday_aggregates_request ticker multiplier timespan
                            from_date to_date adjusted sort' limit include_otc))
          (params_or_empty (snd (get_intraday_aggregates_request ticker multiplier timespan
                                  from_date to_date adjusted sort' limit include_otc)) @ [(''apiKey'', PyStr api_key)]) 20)) \<and>
      get_ticker_exchange_info (refusing_env (Some api_key) now) ticker =
        Inr (''Error: '' @ py_repr (request_record
          (base_url @ ''/v3/reference/tickers/'' @ py_upper ticker)
          [(''apiKey'', PyStr api_key)] 20)) \<and>
      stock_info (refusing_env (Some api_key) now) stock_ticker =
        Inl (ConnectionError (py_repr (request_record
          (base_url @ ''/v3/reference/tickers/'' @ py_upper stock_ticker)
          [(''apiKey'', PyStr api_key)] 20))) \<and>
      income_statement (refusing_env (Some api_key) now) stock_ticker =
        Inl (ConnectionError (py_repr (request_record
          (base_url @ ''/vX/reference/financials'')
          (income_statement_params stock_ticker @ [(''apiKey'', PyStr api_key)]) 20))) \<and>
      (datetime_min + 30 * 86400 \<le> now \<and> now \<le> datetime_max \<longrightarrow>
         stock_price (refusing_env (Some api_key) now) stock_ticker =
           Inl (ConnectionError (py_repr (request_record
             (base_url @ ''/v2/aggs/ticker/'' @ py_upper stock_ticker @ ''/range/1/day/''
                @ strftime_date (now - 30 * 86400) @ ''/'' @ strftime_date now)
             (stock_price_params @ [(''apiKey'', PyStr api_key)]) 20)))))"
proof -
  have general:
    "(POLYGON_API_KEY e = Some api_key \<and> api_key \<noteq> [] \<longrightarrow>
        polygon_get e path params =
          bind_exn (requests_get e (base_url @ path) (polygon_params params api_key) 20)
            (\<lambda>response. bind_exn (raise_for_status response) (\<lambda>_. json response)))
     \<and> (POLYGON_API_KEY e = None \<or> POLYGON_API_KEY e = Some [] \<longrightarrow>
        polygon_get e path params =
          Inl (RuntimeError ''POLYGON_API_KEY environment variable is not set''))"
    using polygon_get_request [of e api_key path params] polygon_get_no_credential [of e path params]
    by blast
  have query:
    "dict_get (polygon_params params api_key) ''apiKey'' = Some (PyStr api_key)
     \<and> (k \<noteq> ''apiKey'' \<longrightarrow>
          dict_get (polygon_params params api_key) k = dict_get (params_or_empty params) k)
     \<and> (distinct (dict_keys (params_or_empty params)) \<longrightarrow>
          count_list (dict_keys (polygon_params params api_key)) ''apiKey'' = 1)
     \<and> (''apiKey'' \<notin> set (dict_keys (params_or_empty params)) \<longrightarrow>
          polygon_params params api_key = params_or_empty params @ [(''apiKey'', PyStr api_key)])
     \<and> (''apiKey'' \<in> set (dict_keys (params_or_empty params)) \<longrightarrow>
          dict_keys (polygon_params params api_key) = dict_keys (params_or_empty params))
     \<and> query_keys req = set (dict_keys (params_or_empty (snd req)))"
    using polygon_params_count [of params api_key] polygon_params_last [of params api_key]
      polygon_params_in_place [of params api_key] query_keys_params_or_empty [of req]
    by (simp add: polygon_params_get)
  have sent: "api_key \<noteq> [] \<longrightarrow>
      get_aggregates (refusing_env (Some api_key) now) ticker multiplier timespan from_date
        to_date adjusted sort' limit =
        Inr (''Error: '' @ py_repr (request_record
          (base_url @ fst (get_aggregates_request ticker multiplier timespan from_date
                            to_date adjusted sort' limit))
          (params_or_empty (snd (get_aggregates_request ticker multiplier timespan from_date
                                  to_date adjusted sort' limit)) @ [(''apiKey'', PyStr api_key)]) 20)) \<and>
      get_previous_close (refusing_env (Some api_key) now) ticker adjusted =
        Inr (''Error: '' @ py_repr (request_record
          (base_url @ fst (get_previous_close_request ticker adjusted))
          (params_or_empty (snd (get_previous_close_request ticker adjusted)) @ [(''apiKey'', PyStr api_key)]) 20)) \<and>
      get_last_trade (refusing_env (Some api_key) now) ticker =
        Inr (''Error: '' @ py_repr (request_record
          (base_url @ fst (get_last_trade_request ticker))
          (params_or_empty (snd (get_last_trade_request ticker)) @ [(''apiKey'', PyStr api_key)]) 20)) \<and>
      get_last_quote (refusing_env (Some api_key) now) ticker =
        Inr (''Error: '' @ py_repr (request_record
          (base_url @ fst (get_last_quote_request ticker))
          (params_or_empty (snd (get_last_quote_request ticker)) @ [(''apiKey'', PyStr api_key)]) 20)) \<and>
      get_snapshot_ticker (refusing_env (Some api_key) now) market_type ticker =
        Inr (''Error: '' @ py_repr (request_record
          (base_url @ fst (get_snapshot_ticker_request market_type ticker))
          (params_or_empty (snd (get_snapshot_ticker_request market_type ticker)) @ [(''apiKey'', PyStr api_key)]) 20)) \<and>
      get_market_status (refusing_env (Some api_key) now) =
        Inr (''Error: '' @ py_repr (request_record
          (base_url @ fst get_market_status_request)
          (params_or_empty (snd get_market_status_request) @ [(''apiKey'', PyStr api_key)]) 20)) \<and>
      search_tickers (refusing_env (Some api_key) now) search type' market active limit
        sort' order =
        Inr (''Error: '' @ py_repr (request_record
          (base_url @ fst (search_tickers_request search type' market active limit sort'
                            order))
          (params_or_empty (snd (search_tickers_request search type' market active limit
                                  sort' order)) @ [(''apiKey'', PyStr api_key)]) 20)) \<and>
      get_ticker_news (refusing_env (Some api_key) now) ticker_opt published_utc limit sort'
        order =
        Inr (''Error: '' @ py_repr (request_record
          (base_url @ fst (get_ticker_news_request ticker_opt published_utc limit sort'
                            order))
          (params_or_empty (snd (get_ticker_news_request ticker_opt published_utc limit
                                  sort' order)) @ [(''apiKey'', PyStr api_key)]) 20)) \<and>
      get_dividends (refusing_env (Some api_key) now) ticker_opt ex_dividend_date frequency
        dividend_type limit =
        Inr (''Error: '' @ py_repr (request_record
          (base_url @ fst (get_dividends_request ticker_opt ex_dividend_date frequency
                            dividend_type limit))
          (params_or_empty (snd (get_dividends_request ticker_opt ex_dividend_date frequency
                                  dividend_type limit)) @ [(''apiKey'', PyStr api_key)]) 20)) \<and>
      get_splits (refusing_env (Some api_key) now) ticker_opt execution_date reverse_split
        limit =
        Inr (''Error: '' @ py_repr (request_record
          (base_url @ fst (get_splits_request ticker_opt execution_date reverse_split limit))
          (params_or_empty (snd (get_splits_request ticker_opt execution_date reverse_split
                                  limit)) @ [(''apiKey'', PyStr api_key)]) 20)) \<and>
      get_treasury_yields (refusing_env (Some api_key) now) date limit sort' order =
        Inr (''Error: '' @ py_repr (request_record
          (base_url @ fst (get_treasury_yields_request date limit sort' order))
          (params_or_empty (snd (get_treasury_yields_request date limit sort' order)) @ [(''apiKey'', PyStr api_key)]) 20)) \<and>
      get_earnings (refusing_env (Some api_key) now) ticker_opt date limit sort' order =
        Inr (''Error: '' @ py_repr (request_record
          (base_url @ fst (get_earnings_request ticker_opt date limit sort' order))
          (params_or_empty (snd (get_earnings_request ticker_opt date limit sort' order)) @ [(''apiKey'', PyStr api_key)]) 20)) \<and>
      get_analyst_ratings (refusing_env (Some api_key) now) ticker_opt date limit sort'
        order =
        Inr (''Error: '' @ py_repr (request_record
          (base_url @ fst (get_analyst_ratings_request ticker_opt date limit sort' order))
          (params_or_empty (snd (get_analyst_ratings_request ticker_opt date limit sort'
                                  order)) @ [(''apiKey'', PyStr api_key)]) 20)) \<and>
      get_short_interest (refusing_env (Some api_key) now) ticker_opt settlement_date limit
        sort' order =
        Inr (''Error: '' @ py_repr (request_record
          (base_url @ fst (get_short_interest_request ticker_opt settlement_date limit sort'
                            order))
          (params_or_empty (snd (get_short_interest_request ticker_opt settlement_date limit
                                  sort' order)) @ [(''apiKey'', PyStr api_key)]) 20)) \<and>
      get_options_contracts (refusing_env (Some api_key) now) underlying_asset contract_type
        strike_price expiration_date limit =
        Inr (''Error: '' @ py_repr (request_record
          (base_url @ fst (get_options_contracts_request underlying_asset contract_type
                            strike_price expiration_date limit))
          (params_or_empty (snd (get_options_contracts_request underlying_asset
                                  contract_type strike_price expiration_date limit)) @ [(''apiKey'', PyStr api_key)]) 20)) \<and>
      get_options_snapshot (refusing_env (Some api_key) now) underlying_asset strike_price
        expiration_date contract_type =
        Inr (''Error: '' @ py_repr (request_record
          (base_url @ fst (get_options_snapshot_request underlying_asset strike_price
                            expiration_date contract_type))
          (params_or_empty (snd (get_options_snapshot_request underlying_asset strike_price
                                  expiration_date contract_type)) @ [(''apiKey'', PyStr api_key)]) 20)) \<and>
      get_balance_sheet (refusing_env (Some api_key) now) ticker timeframe limit order =
        Inr (''Error: '' @ py_repr (request_record
          (base_url @ fst (get_balance_sheet_request ticker timeframe limit order))
          (params_or_empty (snd (get_balance_sheet_request ticker timeframe limit order)) @ [(''apiKey'', PyStr api_key)]) 20)) \<and>
      get_cash_flow (refusing_env (Some api_key) now) ticker timeframe limit order =
        Inr (''Error: '' @ py_repr (request_record
          (base_url @ fst (get_cash_flow_request ticker timeframe limit order))
          (params_or_empty (snd (get_cash_flow_request ticker timeframe limit order)) @ [(''apiKey'', PyStr api_key)]) 20)) \<and>
      get_market_gainers_losers (refusing_env (Some api_key) now) direction include_otc
        limit =
        Inr (''Error: '' @ py_repr (request_record
          (base_url @ fst (get_market_gainers_losers_request direction include_otc limit))
          (params_or_empty (snd (get_market_gainers_losers_request direction include_otc
                                  limit)) @ [(''apiKey'', PyStr api_key)]) 20)) \<and>
      get_market_holidays (refusing_env (Some api_key) now) =
        Inr (''Error: '' @ py_repr (request_record
          (base_url @ fst get_market_holidays_request)
          (params_or_empty (snd get_market_holidays_request) @ [(''apiKey'', PyStr api_key)]) 20)) \<and>
      get_inflation_data (refusing_env (Some api_key) now) date limit sort' =
        Inr (''Error: '' @ py_repr (request_record
          (base_url @ fst (get_inflation_data_request date limit sort'))
          (params_or_empty (snd (get_inflation_data_request date limit sort')) @ [(''apiKey'', PyStr api_key)]) 20)) \<and>
      get_intraday_aggregates (refusing_env (Some api_key) now) ticker multiplier timespan
        from_date to_date adjusted sort' limit include_otc =
        Inr (''Error: '' @ py_repr (request_record
          (base_url @ fst (get_intraday_aggregates_request ticker multiplier timespan
                            from_date to_date adjusted sort' limit include_otc))
          (params_or_empty (snd (get_intraday_aggregates_request ticker multiplier timespan
                                  from_date to_date adjusted sort' limit include_otc)) @ [(''apiKey'', PyStr api_key)]) 20)) \<and>
      get_ticker_exchange_info (refusing_env (Some api_key) now) ticker =
        Inr (''Error: '' @ py_repr (request_record
          (base_url @ ''/v3/reference/tickers/'' @ py_upper ticker)
          [(''apiKey'', PyStr api_key)] 20)) \<and>
      stock_info (refusing_env (Some api_key) now) stock_ticker =
        Inl (ConnectionError (py_repr (request_record
          (base_url @ ''/v3/reference/tickers/'' @ py_upper stock_ticker)
          [(''apiKey'', PyStr api_key)] 20))) \<and>
      income_statement (refusing_env (Some api_key) now) stock_ticker =
        Inl (ConnectionError (py_repr (request_record
          (base_url @ ''/vX/reference/financials'')
          (income_statement_params stock_ticker @ [(''apiKey'', PyStr api_key)]) 20))) \<and>
      (datetime_min + 30 * 86400 \<le> now \<and> now \<le> datetime_max \<longrightarrow>
         stock_price (refusing_env (Some api_key) now) stock_ticker =
           Inl (ConnectionError (py_repr (request_record
             (base_url @ ''/v2/aggs/ticker/'' @ py_upper stock_ticker @ ''/range/1/day/''
                @ strftime_date (now - 30 * 86400) @ ''/'' @ strftime_date now)
             (stock_price_params @ [(''apiKey'', PyStr api_key)]) 20))))"
    by (simp add: get_aggregates_outbound get_previous_close_outbound get_last_trade_outbound get_last_quote_outbound get_snapshot_ticker_outbound get_market_status_outbound search_tickers_outbound get_ticker_news_outbound get_dividends_outbound get_splits_outbound get_treasury_yields_outbound get_earnings_outbound get_analyst_ratings_outbound get_short_interest_outbound get_options_contracts_outbound get_options_snapshot_outbound get_balance_sheet_outbound get_cash_flow_outbound get_market_gainers_losers_outbound get_market_holidays_outbound get_inflation_data_outbound get_intraday_aggregates_outbound
          get_ticker_exchange_info_outbound stock_info_outbound income_statement_outbound
          stock_price_outbound)
  from general query sent show ?thesis
    by (simp add: fixed_params_keys
          get_aggregates_keys get_previous_close_keys get_last_trade_keys get_last_quote_keys get_snapshot_ticker_keys get_market_status_keys search_tickers_keys get_ticker_news_keys get_dividends_keys get_splits_keys get_treasury_yields_keys get_earnings_keys get_analyst_ratings_keys get_short_interest_keys get_options_contracts_keys get_options_snapshot_keys get_balance_sheet_keys get_cash_flow_keys get_market_gainers_losers_keys get_market_holidays_keys get_inflation_data_keys get_intraday_aggregates_keys)
qed

text \<open>
  The theorem at \<^verbatim>\<open>get_aggregates\<close> with \<^verbatim>\<open>sort\<close> and \<^verbatim>\<open>limit\<close>
  supplied and the credential \<^verbatim>\<open>secret\<close>: the refused request has the
  credential as the last key of its query.
\<close>

theorem credential_in_sent_params_witness:
  "''secret'' \<noteq> []
   \<and> ''apiKey'' \<notin> set (dict_keys [(''sort'', PyStr ''asc''), (''limit'', PyInt 10)])
   \<and> distinct (dict_keys [(''sort'', PyStr ''asc''), (''limit'', PyInt 10)])
   \<and> polygon_params (Some [(''sort'', PyStr ''asc''), (''limit'', PyInt 10)]) ''secret''
       = [(''sort'', PyStr ''asc''), (''limit'', PyInt 10), (''apiKey'', PyStr ''secret'')]
   \<and> count_list (dict_keys (polygon_params
         (Some [(''sort'', PyStr ''asc''), (''limit'', PyInt 10)]) ''secret'')) ''apiKey'' = 1
   \<and> get_aggregates (refusing_env (Some ''secret'') 1704067200) ''aapl'' 1 ''day''
        (DateStr ''2024-01-01'') (DateStr ''2024-01-31'') None (Some ''asc'') (Some 10)
       = Inr (''Error: '' @ py_repr (request_record
           ''https://api.polygon.io/v2/aggs/ticker/AAPL/range/1/day/2024-01-01/2024-01-31''
           [(''sort'', PyStr ''asc''), (''limit'', PyInt 10), (''apiKey'', PyStr ''secret'')] 20))"
proof -
  have req: "get_aggregates_request ''aapl'' 1 ''day'' (DateStr ''2024-01-01'')
               (DateStr ''2024-01-31'') None (Some ''asc'') (Some 10)
             = (''/v2/aggs/ticker/AAPL/range/1/day/2024-01-01/2024-01-31'',
                Some [(''sort'', PyStr ''asc''), (''limit'', PyInt 10)])"
    by code_simp
  from credential_in_sent_params
    [where params = "Some [(''sort'', PyStr ''asc''), (''limit'', PyInt 10)]"
       and api_key = "''secret''" and now = 1704067200 and ticker = "''aapl''"
       and multiplier = 1 and timespan = "''day''" and from_date = "DateStr ''2024-01-01''"
       and to_date = "DateStr ''2024-01-31''" and adjusted = None and sort' = "Some ''asc''"
       and limit = "Some 10"]
  show ?thesis
    by (simp add: req params_or_empty_def dict_keys_def base_url_def)
qed

text \<open>
  Claim C7 as stated fails when the mapping of the builder already has an
  \<^verbatim>\<open>apiKey\<close> entry that is not its last: the assignment replaces the value
  in place, and in the request that goes out the last key of the query stays
  \<^verbatim>\<open>limit\<close>.
\<close>

theorem credential_not_last_when_present:
  "polygon_params (Some [(''apiKey'', PyStr ''other''), (''limit'', PyInt 5)]) ''secret''
     = [(''apiKey'', PyStr ''secret''), (''limit'', PyInt 5)]
   \<and> last (polygon_params (Some [(''apiKey'', PyStr ''other''), (''limit'', PyInt 5)]) ''secret'')
     \<noteq> (''apiKey'', PyStr ''secret'')
   \<and> polygon_get (refusing_env (Some ''secret'') 1704067200) ''/v1/marketstatus/now''
        (Some [(''apiKey'', PyStr ''other''), (''limit'', PyInt 5)])
     = Inl (ConnectionError (py_repr (request_record
         ''https://api.polygon.io/v1/marketstatus/now''
         [(''apiKey'', PyStr ''secret''), (''limit'', PyInt 5)] 20)))"
proof -
  have "polygon_params (Some [(''apiKey'', PyStr ''other''), (''limit'', PyInt 5)]) ''secret''
          = [(''apiKey'', PyStr ''secret''), (''limit'', PyInt 5)]"
    by (simp add: polygon_params_def params_or_empty_def)
  then show ?thesis
    by (simp add: polygon_get_refusing base_url_def)
qed

subsection \<open>The upstream call\<close>

lemma polygon_get_stub:
  assumes "POLYGON_API_KEY e = Some api_key" and "api_key \<noteq> []"
    and "\<And>url params timeout. requests_get e url params timeout = Inr r"
  shows "polygon_get e path params = bind_exn (raise_for_status r) (\<lambda>_. json r)"
  by (simp add: polygon_get_def require_polygon_api_key_def bind_exn_def Let_def assms)

lemma polygon_get_ok:
  assumes "POLYGON_API_KEY e = Some api_key" and "api_key \<noteq> []"
    and "\<And>url params timeout. requests_get e url params timeout = Inr r"
    and "status_code r < 400 \<or> 600 \<le> status_code r"
    and "json r = Inr body"
  shows "polygon_get e path params = Inr body"
  using assms(4,5) by (auto simp: polygon_get_stub [OF assms(1-3)] raise_for_status_def bind_exn_def)

lemma polygon_get_server_error:
  assumes "POLYGON_API_KEY e = Some api_key" and "api_key \<noteq> []"
    and "\<And>url params timeout. requests_get e url params timeout = Inr r"
    and "500 \<le> status_code r" and "status_code r < 600"
  shows "polygon_get e path params =
           Inl (HTTPError (str_int (status_code r) @ '' Server Error: '' @ reason r
                             @ '' for url: '' @ url r))"
  using assms(4,5) by (simp add: polygon_get_stub [OF assms(1-3)] raise_for_status_def bind_exn_def)

lemma fetch_json_ok:
  assumes "POLYGON_API_KEY e = Some api_key" and "api_key \<noteq> []"
    and "\<And>url params timeout. requests_get e url params timeout = Inr r"
    and "status_code r < 400 \<or> 600 \<le> status_code r"
    and "json r = Inr body"
  shows "fetch_json e req = Inr (json_dumps body)"
  by (simp add: fetch_json_def polygon_get_ok [OF assms] bind_exn_def)

text \<open>
  Claim C3, as amended. With the credential set and an upstream that answers
  every request with a response outside the 4xx and 5xx statuses whose body
  decodes to \<open>body\<close>, each of the twenty-one forwarding tools returns
  \<^verbatim>\<open>json.dumps(body, indent=2)\<close>, whatever its arguments, and
  \<^verbatim>\<open>get_intraday_aggregates\<close> returns the dump of the body after the session
  augmentation, when the augmentation raises no exception. The other tools
  (\<^verbatim>\<open>stock_price\<close>, \<^verbatim>\<open>stock_info\<close>, \<^verbatim>\<open>income_statement\<close>,
  \<^verbatim>\<open>get_ticker_exchange_info\<close>, \<^verbatim>\<open>convert_utc_to_et\<close> and the four
  static documents) return a text of their own.
\<close>

theorem forwarding_tools_return_upstream_body:
  assumes "POLYGON_API_KEY e = Some api_key" and "api_key \<noteq> []"
    and "\<And>url params timeout. requests_get e url params timeout = Inr r"
    and "status_code r < 400 \<or> 600 \<le> status_code r"
    and "json r = Inr body"
  shows
  "get_aggregates e ticker multiplier timespan from_date to_date adjusted sort' limit = Inr (json_dumps body) \<and>
   get_previous_close e ticker adjusted = Inr (json_dumps body) \<and>
   get_last_trade e ticker = Inr (json_dumps body) \<and>
   get_last_quote e ticker = Inr (json_dumps body) \<and>
   get_snapshot_ticker e market_type ticker = Inr (json_dumps body) \<and>
   get_market_status e = Inr (json_dumps body) \<and>
   search_tickers e search type' market active limit sort' order = Inr (json_dumps body) \<and>
   get_ticker_news e ticker_opt published_utc limit sort' order = Inr (json_dumps body) \<and>
   get_dividends e ticker_opt ex_dividend_date frequency dividend_type limit = Inr (json_dumps body) \<and>
   get_splits e ticker_opt execution_date reverse_split limit = Inr (json_dumps body) \<and>
   get_treasury_yields e date limit sort' order = Inr (json_dumps body) \<and>
   get_earnings e ticker_opt date limit sort' order = Inr (json_dumps body) \<and>
   get_analyst_ratings e ticker_opt date limit sort' order = Inr (json_dumps body) \<and>
   get_short_interest e ticker_opt settlement_date limit sort' order = Inr (json_dumps body) \<and>
   get_options_contracts e underlying_asset contract_type strike_price expiration_date limit = Inr (json_dumps body) \<and>
   get_options_snapshot e underlying_asset strike_price expiration_date contract_type = Inr (json_dumps body) \<and>
   get_balance_sheet e ticker timeframe limit order = Inr (json_dumps body) \<and>
   get_cash_flow e ticker timeframe limit order = Inr (json_dumps body) \<and>
   get_market_gainers_losers e direction include_otc limit = Inr (json_dumps body) \<and>
   get_market_holidays e = Inr (json_dumps body) \<and>
   get_inflation_data e date limit sort' = Inr (json_dumps body) \<and>
   (add_market_sessions e body = Inr body' \<longrightarrow>
      get_intraday_aggregates e ticker multiplier timespan from_date to_date adjusted sort' limit
        include_otc = Inr (json_dumps body'))"
  by (simp add: get_aggregates_def get_previous_close_def get_last_trade_def get_last_quote_def get_snapshot_ticker_def get_market_status_def search_tickers_def get_ticker_news_def get_dividends_def get_splits_def get_treasury_yields_def get_earnings_def get_analyst_ratings_def get_short_interest_def get_options_contracts_def get_options_snapshot_def get_balance_sheet_def get_cash_flow_def get_market_gainers_losers_def get_market_holidays_def get_inflation_data_def get_intraday_aggregates_def
        except_Exception_def fetch_json_ok [OF assms] polygon_get_ok [OF assms] bind_exn_def Let_def)

theorem forwarding_tools_return_upstream_body_witness:
  "get_last_trade
     (stub_env (Some ''key'') (http_response 200 ''OK'' (PyDict [(''status'', PyStr ''OK'')]))
        1704067200) ''nvda''
     = Inr (json_dumps (PyDict [(''status'', PyStr ''OK'')]))"
  using forwarding_tools_return_upstream_body
    [of "stub_env (Some ''key'') (http_response 200 ''OK'' (PyDict [(''status'', PyStr ''OK'')]))
           1704067200"
      "''key''" "http_response 200 ''OK'' (PyDict [(''status'', PyStr ''OK'')])"
      "PyDict [(''status'', PyStr ''OK'')]"]
  by (simp add: stub_env_def http_response_def)

text \<open>
  Claim C3 as stated fails for \<^verbatim>\<open>stock_price\<close>: against the same stub it
  returns a sentence with the list of closes, not the pretty-printed body.
\<close>

theorem stock_price_not_upstream_body:
  "stock_price
     (stub_env (Some ''key'') (http_response 200 ''OK'' (PyDict [(''status'', PyStr ''OK'')]))
        1704067200) ''NVDA''
     = Inr ''Stock price over the last month for NVDA: []''
   \<and> Inr ''Stock price over the last month for NVDA: []''
        \<noteq> (Inr (json_dumps (PyDict [(''status'', PyStr ''OK'')])) :: pyexn + string)"
  by code_simp

text \<open>
  Claim C1 does not hold of the code. With the credential set, the clock in
  range and an upstream that answers with a 5xx status, the exception of
  \<^verbatim>\<open>raise_for_status\<close> leaves \<^verbatim>\<open>stock_price\<close>, \<^verbatim>\<open>stock_info\<close> and
  \<^verbatim>\<open>income_statement\<close>, which have no \<^verbatim>\<open>try\<close>, while
  \<^verbatim>\<open>get_aggregates\<close> in the same situation returns the string
  \<^verbatim>\<open>"Error: <message>"\<close>.
\<close>

theorem legacy_tools_raise_upstream_error:
  assumes "POLYGON_API_KEY e = Some api_key" and "api_key \<noteq> []"
    and "\<And>url params timeout. requests_get e url params timeout = Inr r"
    and "500 \<le> status_code r" and "status_code r < 600"
    and "datetime_min + 30 * 86400 \<le> utc_now e" and "utc_now e \<le> datetime_max"
  shows "stock_price e stock_ticker =
           Inl (HTTPError (str_int (status_code r) @ '' Server Error: '' @ reason r
                             @ '' for url: '' @ url r))
         \<and> stock_info e stock_ticker =
           Inl (HTTPError (str_int (status_code r) @ '' Server Error: '' @ reason r
                             @ '' for url: '' @ url r))
         \<and> income_statement e stock_ticker =
           Inl (HTTPError (str_int (status_code r) @ '' Server Error: '' @ reason r
                             @ '' for url: '' @ url r))
         \<and> get_aggregates e ticker multiplier timespan from_date to_date adjusted sort' limit =
           Inr (''Error: '' @ str_int (status_code r) @ '' Server Error: '' @ reason r
                  @ '' for url: '' @ url r)"
  using assms(6,7)
  by (simp add: stock_price_def stock_price_path_def stock_info_def income_statement_def
        get_aggregates_def fetch_json_def except_Exception_def datetime_add_def
        polygon_get_server_error [OF assms(1-5)] bind_exn_def Let_def)

theorem legacy_tools_raise_upstream_error_witness:
  "stock_price
     (stub_env (Some ''key'') (http_response 500 ''Internal Server Error'' PyNone) 1704067200)
     ''NVDA''
     = Inl (HTTPError ''500 Server Error: Internal Server Error for url: https://api.polygon.io/'')"
  using legacy_tools_raise_upstream_error
    [of "stub_env (Some ''key'') (http_response 500 ''Internal Server Error'' PyNone) 1704067200"
      "''key''" "http_response 500 ''Internal Server Error'' PyNone" "''NVDA''"]
  apply (simp add: stub_env_def http_response_def datetime_min_def datetime_max_def)
  apply code_simp
  done

subsection \<open>The no-data answer of \<^verbatim>\<open>get_ticker_exchange_info\<close>\<close>

lemma dict_get_None_iff: "dict_get d k = None \<longleftrightarrow> k \<notin> set (dict_keys d)"
  by (simp add: dict_get_def dict_keys_def map_of_eq_None_iff)


lemma no_data_not_error:
  "\<not> prefix ''Error: '' (json_dumps (PyDict [(''error'', PyStr s)]))"
  by (simp add: json_dumps_def)

text \<open>
  Claim C10. With the credential set and an upstream whose body decodes to a
  dictionary in which \<^verbatim>\<open>results\<close> is missing or falsy,
  \<^verbatim>\<open>get_ticker_exchange_info\<close> returns the pretty-printed object
  \<^verbatim>\<open>{"error": "No data found for ticker <ticker>"}\<close>, with the ticker as
  the caller wrote it; the text does not start with \<^verbatim>\<open>Error: \<close>.
\<close>

theorem ticker_exchange_info_no_data:
  assumes "POLYGON_API_KEY e = Some api_key" and "api_key \<noteq> []"
    and "\<And>url params timeout. requests_get e url params timeout = Inr r"
    and "status_code r < 400 \<or> 600 \<le> status_code r"
    and "json r = Inr (PyDict d)"
    and "\<forall>v. dict_get d ''results'' = Some v \<longrightarrow> \<not> py_truthy v"
  shows "get_ticker_exchange_info e ticker =
           Inr (json_dumps (PyDict [(''error'', PyStr (''No data found for ticker '' @ ticker))]))
         \<and> \<not> prefix ''Error: ''
               (json_dumps (PyDict [(''error'', PyStr (''No data found for ticker '' @ ticker))]))"
proof -
  have get: "polygon_get e path params = Inr (PyDict d)" for path params
    by (rule polygon_get_ok [OF assms(1-5)])
  have found: "(if ''results'' \<in> set (dict_keys d)
                then bind_exn (py_getitem (PyDict d) ''results'') (\<lambda>r. Inr (py_truthy r))
                else Inr False) = Inr False"
  proof (cases "''results'' \<in> set (dict_keys d)")
    case True
    then obtain v where v: "dict_get d ''results'' = Some v"
      using dict_get_None_iff [of d "''results''"] by auto
    with assms(6) have "\<not> py_truthy v" by simp
    with True v show ?thesis by (simp add: bind_exn_def)
  next
    case False
    then show ?thesis by simp
  qed
  show ?thesis
    by (simp add: get_ticker_exchange_info_def get Let_def bind_exn_def found except_Exception_def
          no_data_not_error)
qed

theorem ticker_exchange_info_no_data_witness:
  "get_ticker_exchange_info
     (stub_env (Some ''key'') (http_response 200 ''OK'' (PyDict [(''results'', PyList [])])) 1704067200)
     ''aapl''
   = Inr (json_dumps (PyDict [(''error'', PyStr ''No data found for ticker aapl'')]))"
  using ticker_exchange_info_no_data
    [of "stub_env (Some ''key'') (http_response 200 ''OK'' (PyDict [(''results'', PyList [])])) 1704067200"
      "''key''" "http_response 200 ''OK'' (PyDict [(''results'', PyList [])])"
      "[(''results'', PyList [])]" "''aapl''"]
  by (simp add: stub_env_def http_response_def dict_get_def)

subsection \<open>Session augmentation\<close>












subsection \<open>Registration and serving\<close>

text \<open>
  Claim C2 does not hold of the code. When \<^verbatim>\<open>server.py\<close> is run as the
  main module, \<^verbatim>\<open>mcp.run\<close> is entered after fourteen tools have been
  registered; the seventeen tools defined below the
  \<^verbatim>\<open>if __name__ == "__main__":\<close> block are registered only once
  \<^verbatim>\<open>mcp.run\<close> has returned, so the registry changes after serving began.
  When the module is imported instead, it registers all thirty-one tools and
  does not start the server.
\<close>

theorem serving_starts_before_later_tools_are_registered:
  "serving_started_with (exec_module True server_py) =
     Some [''stock_price'', ''stock_info'', ''income_statement'', ''get_aggregates'',
           ''get_previous_close'', ''get_last_trade'', ''get_last_quote'', ''get_snapshot_ticker'',
           ''get_market_status'', ''search_tickers'', ''get_ticker_news'', ''get_dividends'',
           ''get_splits'', ''get_treasury_yields'']
   \<and> registry (exec_module True server_py) =
     [''stock_price'', ''stock_info'', ''income_statement'', ''get_aggregates'',
      ''get_previous_close'', ''get_last_trade'', ''get_last_quote'', ''get_snapshot_ticker'',
      ''get_market_status'', ''search_tickers'', ''get_ticker_news'', ''get_dividends'',
      ''get_splits'', ''get_treasury_yields'', ''get_market_hours_info'', ''convert_utc_to_et'',
      ''get_exchange_info'', ''get_intraday_aggregates'', ''get_sip_info'',
      ''get_market_data_coverage'', ''get_ticker_exchange_info'', ''get_earnings'',
      ''get_analyst_ratings'', ''get_short_interest'', ''get_options_contracts'',
      ''get_options_snapshot'', ''get_balance_sheet'', ''get_cash_flow'',
      ''get_market_gainers_losers'', ''get_market_holidays'', ''get_inflation_data'']
   \<and> serving_started_with (exec_module True server_py) \<noteq> Some (registry (exec_module True server_py))
   \<and> serving_started_with (exec_module False server_py) = None
   \<and> registry (exec_module False server_py) = registry (exec_module True server_py)"
  by code_simp

end
